theory Spec2Isabelle
  imports Main "HOL-Library.Word" "HOL-Library.AList" "HOL-Library.Char_ord"
    "HOL-Library.List_Lexorder"
begin

unbundle bit_operations_syntax

section \<open>Constants of the trading package\<close>

text \<open>
  The three \<^verbatim>\<open>const\<close> blocks of the trading file. \<^verbatim>\<open>State\<close> and
  \<^verbatim>\<open>ConfirmationMethod\<close> are \<^verbatim>\<open>uint8\<close> fields, the filter is a \<^verbatim>\<open>uint32\<close>.
\<close>

definition TradeStateNone :: "8 word" where "TradeStateNone = 0"
definition TradeStateInvalid :: "8 word" where "TradeStateInvalid = 1"
definition TradeStateActive :: "8 word" where "TradeStateActive = 2"
definition TradeStateAccepted :: "8 word" where "TradeStateAccepted = 3"
definition TradeStateCountered :: "8 word" where "TradeStateCountered = 4"
definition TradeStateExpired :: "8 word" where "TradeStateExpired = 5"
definition TradeStateCanceled :: "8 word" where "TradeStateCanceled = 6"
definition TradeStateDeclined :: "8 word" where "TradeStateDeclined = 7"
definition TradeStateInvalidItems :: "8 word" where "TradeStateInvalidItems = 8"
definition TradeStateCreatedNeedsConfirmation :: "8 word" where
  "TradeStateCreatedNeedsConfirmation = 9"
definition TradeStateCanceledByTwoFactor :: "8 word" where "TradeStateCanceledByTwoFactor = 10"
definition TradeStateInEscrow :: "8 word" where "TradeStateInEscrow = 11"

definition TradeConfirmationNone :: "8 word" where "TradeConfirmationNone = 0"
definition TradeConfirmationEmail :: "8 word" where "TradeConfirmationEmail = 1"
definition TradeConfirmationMobileApp :: "8 word" where "TradeConfirmationMobileApp = 2"
definition TradeConfirmationMobile :: "8 word" where "TradeConfirmationMobile = 3"

definition TradeFilterNone :: "32 word" where "TradeFilterNone = 0"
definition TradeFilterSentOffers :: "32 word" where "TradeFilterSentOffers = push_bit 0 1"
definition TradeFilterRecvOffers :: "32 word" where "TradeFilterRecvOffers = push_bit 1 1"
definition TradeFilterActiveOnly :: "32 word" where "TradeFilterActiveOnly = push_bit 3 1"
definition TradeFilterHistoricalOnly :: "32 word" where
  "TradeFilterHistoricalOnly = push_bit 4 1"
definition TradeFilterItemDescriptions :: "32 word" where
  "TradeFilterItemDescriptions = push_bit 5 1"

section \<open>Errors\<close>

text \<open>
  A Go \<^verbatim>\<open>error\<close> value: built by \<^verbatim>\<open>errors.New\<close>, built by \<^verbatim>\<open>fmt.Errorf\<close> (the
  formatted message), or handed back by a library call (net/http, encoding/json, io)
  and passed on unchanged.
\<close>

datatype error = ErrorsNew string | Errorf string | External string

definition ErrReceiptMatch :: error where
  "ErrReceiptMatch = ErrorsNew ''unable to match items in trade receipt''"
definition ErrCannotAcceptActive :: error where
  "ErrCannotAcceptActive = ErrorsNew ''unable to accept a non-active trade''"
definition ErrCannotFindOfferInfo :: error where
  "ErrCannotFindOfferInfo = ErrorsNew ''unable to match data from trade offer url''"

section \<open>Data model\<close>

record EconItem =
  AssetID :: string
  InstanceID :: string
  ClassID :: string
  AppID :: "32 word"
  ContextID :: string
  Amount :: string
  Missing :: bool
  EstUSD :: "32 word"

record EconDesc =
  desc_Type :: string
  desc_Value :: string
  desc_Name :: string
  desc_Color :: string

record EconTag =
  tag_Category :: string
  tag_InternalName :: string
  tag_LocalizedCategoryName :: string
  tag_LocalizedTagName :: string
  tag_Color :: string

record EconAction =
  action_Link :: string
  action_Name :: string

record EconItemDesc =
  idesc_ClassID :: "64 word"
  idesc_InstanceID :: "64 word"
  idesc_Currency :: int
  idesc_BackgroundColor :: string
  idesc_IconURL :: string
  idesc_IconLargeURL :: string
  idesc_Tradable :: int
  idesc_Name :: string
  idesc_NameColor :: string
  idesc_Type :: string
  idesc_MarketName :: string
  idesc_MarketHashName :: string
  idesc_Commodity :: int
  idesc_MarketTradableRestriction :: int
  idesc_MarketMarketableRestriction :: int
  idesc_Marketable :: int
  idesc_Actions :: "EconAction list"
  idesc_Tags :: "EconTag list"
  idesc_Descriptions :: "EconDesc list"

text \<open>
  The item slices hold pointers in the source; no operation below writes through them,
  so a slice is modelled by the list of the items pointed to.
\<close>

record TradeOffer =
  ID :: "64 word"
  Partner :: "32 word"
  ReceiptID :: "64 word"
  RecvItems :: "EconItem list"
  SendItems :: "EconItem list"
  Message :: string
  State :: "8 word"
  ConfirmationMethod :: "8 word"
  Created :: "64 word"
  Updated :: "64 word"
  Expires :: "64 word"
  EscrowEndDate :: "64 word"
  RealTime :: bool
  IsOurOffer :: bool

text \<open>Pointer fields that may be nil are options.\<close>

record TradeOfferResponse =
  Offer :: "TradeOffer option"
  SentOffers :: "TradeOffer list"
  ReceivedOffers :: "TradeOffer list"
  Descriptions :: "EconItemDesc list"

record APIResponse =
  Inner :: "TradeOfferResponse option"

text \<open>The local \<^verbatim>\<open>Response\<close> type of \<^verbatim>\<open>SendTradeOffer\<close>.\<close>

record SendResponse =
  send_ErrorMessage :: string
  send_ID :: "64 word"
  send_MobileConfirmationRequired :: bool
  send_EmailConfirmationRequired :: bool
  send_EmailDomain :: string

text \<open>The local \<^verbatim>\<open>Response\<close> type of \<^verbatim>\<open>AcceptTradeOffer\<close>.\<close>

record AcceptResponse =
  accept_ErrorMessage :: string

text \<open>The JSON document \<^verbatim>\<open>SendTradeOffer\<close> marshals: the map literal \<^verbatim>\<open>content\<close>.\<close>

record content_side =
  assets :: "EconItem list"
  currency :: "unit list"
  ready :: bool

record content =
  newversion :: bool
  version :: int
  me :: content_side
  them :: content_side

section \<open>The patterns\<close>

fun strip_prefix :: "string \<Rightarrow> string \<Rightarrow> string option" where
  "strip_prefix [] s = Some s"
| "strip_prefix (p # ps) [] = None"
| "strip_prefix (p # ps) (c # s) = (if p = c then strip_prefix ps s else None)"

text \<open>The class \<^verbatim>\<open>\s\<close> of Go's regexp syntax: tab, newline, form feed, carriage return, space.\<close>

definition is_space :: "char \<Rightarrow> bool" where
  "is_space c =
     (c = CHR 0x09 \<or> c = CHR 0x0A \<or> c = CHR 0x0C \<or> c = CHR 0x0D \<or> c = CHR '' '')"

text \<open>
  \<^verbatim>\<open>receiptExp = "oItem =\s(.+?});"\<close>. After the literal and the space character the
  lazy \<^verbatim>\<open>.+?\<close> takes one character that is not a newline, then as few more as
  possible before a closing brace followed by a semicolon. \<open>receipt_tail acc r\<close> holds
  the characters taken so far in \<open>acc\<close>; it returns the capture group (the closing
  brace included) or \<open>None\<close> when no match starts here.
\<close>

fun receipt_tail :: "string \<Rightarrow> string \<Rightarrow> string option" where
  "receipt_tail acc [] = None"
| "receipt_tail acc (c # r) =
     (if acc \<noteq> [] \<and> c = CHR ''}'' \<and> (case r of [] \<Rightarrow> False | d # _ \<Rightarrow> d = CHR '';'')
      then Some (acc @ ''}'')
      else if c = CHR 0x0A then None
      else receipt_tail (acc @ [c]) r)"

text \<open>A match that starts at the head of \<open>s\<close>: the whole match and the capture group.\<close>

definition receiptExp_here :: "string \<Rightarrow> (string \<times> string) option" where
  "receiptExp_here s =
     (case strip_prefix ''oItem ='' s of
        None \<Rightarrow> None
      | Some r \<Rightarrow>
          (case r of
             [] \<Rightarrow> None
           | c # r' \<Rightarrow>
               if is_space c
               then (case receipt_tail [] r' of
                       None \<Rightarrow> None
                     | Some g \<Rightarrow> Some (''oItem ='' @ [c] @ g @ '';'', g))
               else None))"

text \<open>
  \<^verbatim>\<open>receiptExp.FindAllSubmatch(body, -1)\<close>: the successive leftmost matches, none
  overlapping an earlier one. \<open>skip\<close> counts the characters still inside the previous
  match. The empty list stands for the nil result (a non-nil result has a match).
\<close>

fun receiptExp_scan :: "nat \<Rightarrow> string \<Rightarrow> (string \<times> string) list" where
  "receiptExp_scan skip [] = []"
| "receiptExp_scan (Suc skip) (c # s) = receiptExp_scan skip s"
| "receiptExp_scan 0 (c # s) =
     (case receiptExp_here (c # s) of
        None \<Rightarrow> receiptExp_scan 0 s
      | Some (whole, g) \<Rightarrow> (whole, g) # receiptExp_scan (length whole - 1) s)"

definition receiptExp_FindAllSubmatch :: "string \<Rightarrow> (string \<times> string) list" where
  "receiptExp_FindAllSubmatch body = receiptExp_scan 0 body"

text \<open>
  The texts of a list occur in a text one after the other, in the order of the list,
  none overlapping another.
\<close>

fun occur_in_order :: "string list \<Rightarrow> string \<Rightarrow> bool" where
  "occur_in_order [] s = True"
| "occur_in_order (m # ms) s =
     (\<exists>pre rest. s = pre @ m @ rest \<and> occur_in_order ms rest)"

text \<open>
  \<^verbatim>\<open>offerInfoExp = "token=([a-zA-Z0-9-_]+)"\<close>: the class holds the letters, the digits,
  the hyphen and the underscore; the \<^verbatim>\<open>+\<close> is greedy.
\<close>

definition is_token_char :: "char \<Rightarrow> bool" where
  "is_token_char c =
     ((CHR ''a'' \<le> c \<and> c \<le> CHR ''z'') \<or> (CHR ''A'' \<le> c \<and> c \<le> CHR ''Z'') \<or>
      (CHR ''0'' \<le> c \<and> c \<le> CHR ''9'') \<or> c = CHR ''-'' \<or> c = CHR ''_'')"

definition offerInfoExp_here :: "string \<Rightarrow> string list option" where
  "offerInfoExp_here s =
     (case strip_prefix ''token='' s of
        None \<Rightarrow> None
      | Some r \<Rightarrow>
          (let g = takeWhile is_token_char r
           in if g = [] then None else Some [''token='' @ g, g]))"

text \<open>
  \<^verbatim>\<open>offerInfoExp.FindStringSubmatch(body)\<close>: the leftmost match as the slice of the
  whole match and the group, or nil (\<open>None\<close>) when there is no match.
\<close>

fun offerInfoExp_FindStringSubmatch :: "string \<Rightarrow> string list option" where
  "offerInfoExp_FindStringSubmatch [] = None"
| "offerInfoExp_FindStringSubmatch (c # s) =
     (case offerInfoExp_here (c # s) of
        Some m \<Rightarrow> Some m
      | None \<Rightarrow> offerInfoExp_FindStringSubmatch s)"

text \<open>The number of matches of \<^verbatim>\<open>offerInfoExp\<close> in a body, none overlapping an earlier one.\<close>

fun offerInfoExp_count :: "nat \<Rightarrow> string \<Rightarrow> nat" where
  "offerInfoExp_count skip [] = 0"
| "offerInfoExp_count (Suc skip) (c # s) = offerInfoExp_count skip s"
| "offerInfoExp_count 0 (c # s) =
     (case offerInfoExp_here (c # s) of
        None \<Rightarrow> offerInfoExp_count 0 s
      | Some m \<Rightarrow> Suc (offerInfoExp_count (length (hd m) - 1) s))"

section \<open>Formatting and query encoding\<close>

text \<open>Decimal digits, as \<^verbatim>\<open>strconv.FormatUint(x, 10)\<close> and \<^verbatim>\<open>strconv.FormatInt(x, 10)\<close> print them.\<close>

fun format_nat :: "nat \<Rightarrow> string" where
  "format_nat n =
     (if n < 10 then [char_of (48 + n)]
      else format_nat (n div 10) @ [char_of (48 + n mod 10)])"

declare format_nat.simps [simp del]

definition format_int :: "int \<Rightarrow> string" where
  "format_int i = (if i < 0 then ''-'' @ format_nat (nat (- i)) else format_nat (nat i))"

definition FormatUint :: "64 word \<Rightarrow> string" where
  "FormatUint x = format_nat (unat x)"

definition FormatInt :: "64 word \<Rightarrow> string" where
  "FormatInt x = format_int (sint x)"

text \<open>
  \<^verbatim>\<open>url.QueryEscape\<close>: letters, digits and \<^verbatim>\<open>- _ . ~\<close> stay, a space becomes a plus
  sign, every other byte becomes a percent sign and two upper-case hexadecimal digits.
\<close>

definition shouldEscape :: "char \<Rightarrow> bool" where
  "shouldEscape c =
     (\<not> ((CHR ''a'' \<le> c \<and> c \<le> CHR ''z'') \<or> (CHR ''A'' \<le> c \<and> c \<le> CHR ''Z'') \<or>
         (CHR ''0'' \<le> c \<and> c \<le> CHR ''9'') \<or>
         c = CHR ''-'' \<or> c = CHR ''_'' \<or> c = CHR ''.'' \<or> c = CHR ''~''))"

definition upperhex :: string where
  "upperhex = ''0123456789ABCDEF''"

definition escape_byte :: "char \<Rightarrow> string" where
  "escape_byte c =
     (if \<not> shouldEscape c then [c]
      else if c = CHR '' '' then ''+''
      else [CHR ''%'', upperhex ! (of_char c div 16), upperhex ! (of_char c mod 16)])"

definition QueryEscape :: "string \<Rightarrow> string" where
  "QueryEscape s = concat (map escape_byte s)"

text \<open>
  \<^verbatim>\<open>url.Values\<close> is a map from a key to a list of values; \<^verbatim>\<open>Encode\<close> walks the keys
  in sorted order, so the map is kept as an association list with distinct keys.
\<close>

type_synonym Values = "(string \<times> string list) list"

definition Values_Set :: "string \<Rightarrow> string \<Rightarrow> Values \<Rightarrow> Values" where
  "Values_Set k v vs = AList.update k [v] vs"

definition Values_Add :: "string \<Rightarrow> string \<Rightarrow> Values \<Rightarrow> Values" where
  "Values_Add k v vs =
     AList.update k ((case map_of vs k of None \<Rightarrow> [] | Some old \<Rightarrow> old) @ [v]) vs"

fun join_amp :: "string list \<Rightarrow> string" where
  "join_amp [] = []"
| "join_amp [p] = p"
| "join_amp (p # q # ps) = p @ ''&'' @ join_amp (q # ps)"

definition Values_Encode :: "Values \<Rightarrow> string" where
  "Values_Encode v =
     join_amp
       (concat
          (map (\<lambda>k. map (\<lambda>x. QueryEscape k @ ''='' @ QueryEscape x)
                       (case map_of v k of None \<Rightarrow> [] | Some xs \<Rightarrow> xs))
               (sort (map fst v))))"

section \<open>The HTTP client, the clock and the library\<close>

record http_request =
  req_Method :: string
  req_URL :: string
  req_Header :: Values
  req_Body :: string

text \<open>
  A response body is a stream: the bytes it yields and the error that ends it
  (\<open>None\<close> for a plain end of file). \<open>Header_Get\<close> is what \<^verbatim>\<open>resp.Header.Get\<close>
  returns for a name.
\<close>

type_synonym ReadCloser = "string \<times> error option"

record http_response =
  StatusCode :: int
  Header_Get :: "string \<Rightarrow> string"
  Body :: ReadCloser

definition io_ReadAll :: "ReadCloser \<Rightarrow> string \<times> error option" where
  "io_ReadAll b = b"

definition http_StatusOK :: int where
  "http_StatusOK = 200"

datatype http_call = Get string | PostForm string Values | Do http_request

text \<open>
  Everything outside the process: the transport answers a call (given the calls made
  before it) with a response or nil and an error or nil; \<open>calls\<close> records the calls
  made so far; \<open>clock n\<close> is what the \<open>n\<close>-th reading of \<^verbatim>\<open>time.Now().Unix()\<close> returns.
\<close>

record world =
  transport :: "http_call list \<Rightarrow> http_call \<Rightarrow> http_response option \<times> error option"
  calls :: "http_call list"
  clock :: "nat \<Rightarrow> 64 word"
  reads :: nat

definition round_trip ::
  "world \<Rightarrow> http_call \<Rightarrow> (http_response option \<times> error option) \<times> world" where
  "round_trip w c = (transport w (calls w) c, w\<lparr>calls := calls w @ [c]\<rparr>)"

definition client_Get ::
  "world \<Rightarrow> string \<Rightarrow> (http_response option \<times> error option) \<times> world" where
  "client_Get w u = round_trip w (Get u)"

definition client_PostForm ::
  "world \<Rightarrow> string \<Rightarrow> Values \<Rightarrow> (http_response option \<times> error option) \<times> world" where
  "client_PostForm w u d = round_trip w (PostForm u d)"

definition client_Do ::
  "world \<Rightarrow> http_request \<Rightarrow> (http_response option \<times> error option) \<times> world" where
  "client_Do w req = round_trip w (Do req)"

definition time_Now_Unix :: "world \<Rightarrow> 64 word \<times> world" where
  "time_Now_Unix w = (clock w (reads w), w\<lparr>reads := Suc (reads w)\<rparr>)"

definition Header_Add :: "string \<Rightarrow> string \<Rightarrow> http_request \<Rightarrow> http_request" where
  "Header_Add k v req = req\<lparr>req_Header := Values_Add k v (req_Header req)\<rparr>"

definition Header_Set :: "string \<Rightarrow> string \<Rightarrow> http_request \<Rightarrow> http_request" where
  "Header_Set k v req = req\<lparr>req_Header := Values_Set k v (req_Header req)\<rparr>"

text \<open>
  Modelled from the spec: the \<^verbatim>\<open>Session\<close> type is declared outside the sources at
  hand. The spec (4.4) gives it a session identifier, an API key and an HTTP transport;
  the transport's behaviour is the \<open>world\<close> above.
\<close>

record Session =
  apiKey :: string
  sessionID :: string

text \<open>
  What the trading file uses and does not define: the package constant
  \<^verbatim>\<open>APIBaseUrl\<close>, the methods of \<^verbatim>\<open>SteamID\<close> (a type \<open>'sid\<close>), the type
  \<^verbatim>\<open>InventoryItem\<close> (a type \<open>'item\<close>), and the library calls whose results the code
  branches on. Each is a parameter of the operations.
\<close>

record ('item, 'sid) extern =
  APIBaseUrl :: string
  SteamID_ToString :: "'sid \<Rightarrow> string"
  SteamID_GetAccountID :: "'sid \<Rightarrow> 32 word"
  json_Marshal :: "content \<Rightarrow> error + string"
  http_NewRequest :: "string \<Rightarrow> string \<Rightarrow> string \<Rightarrow> error + http_request"
  json_Decode_APIResponse :: "ReadCloser \<Rightarrow> error + APIResponse"
  json_Decode_SendResponse :: "ReadCloser \<Rightarrow> error + SendResponse"
  json_Decode_AcceptResponse :: "ReadCloser \<Rightarrow> error + AcceptResponse"
  json_Unmarshal_InventoryItem :: "string \<Rightarrow> error + 'item"

definition apiGetTradeOffer :: "('item, 'sid) extern \<Rightarrow> string" where
  "apiGetTradeOffer x = APIBaseUrl x @ ''/IEconService/GetTradeOffer/v1/?''"
definition apiGetTradeOffers :: "('item, 'sid) extern \<Rightarrow> string" where
  "apiGetTradeOffers x = APIBaseUrl x @ ''/IEconService/GetTradeOffers/v1/?''"
definition apiDeclineTradeOffer :: "('item, 'sid) extern \<Rightarrow> string" where
  "apiDeclineTradeOffer x = APIBaseUrl x @ ''/IEconService/DeclineTradeOffer/v1/''"
definition apiCancelTradeOffer :: "('item, 'sid) extern \<Rightarrow> string" where
  "apiCancelTradeOffer x = APIBaseUrl x @ ''/IEconService/CancelTradeOffer/v1/''"

section \<open>Query operations\<close>

text \<open>
  A call either returns or panics. The deferred \<^verbatim>\<open>Body.Close()\<close> of every operation
  changes nothing the operations read, and is left out. Receivers and pointer
  arguments (\<^verbatim>\<open>session\<close>, \<^verbatim>\<open>offer\<close>) are taken to be non-nil.
\<close>

datatype 'a outcome = Panics | Returns 'a

definition GetTradeOffer ::
  "('item, 'sid) extern \<Rightarrow> Session \<Rightarrow> 64 word \<Rightarrow> world
     \<Rightarrow> (TradeOffer option \<times> error option) outcome \<times> world" where
  "GetTradeOffer x session id' w =
     (case client_Get w
             (apiGetTradeOffer x @
                Values_Encode [(''key'', [apiKey session]),
                               (''tradeofferid'', [FormatUint id'])]) of
        ((resp, err), w') \<Rightarrow>
          (case err of
             Some e \<Rightarrow> (Returns (None, Some e), w')
           | None \<Rightarrow>
               (case resp of
                  None \<Rightarrow> (Returns (None, Some (ErrorsNew ''invalid response'')), w')
                | Some r \<Rightarrow>
                    (case json_Decode_APIResponse x (Body r) of
                       Inl e \<Rightarrow> (Returns (None, Some e), w')
                     | Inr response \<Rightarrow>
                         (case Inner response of
                            None \<Rightarrow> (Panics, w')
                          | Some inner \<Rightarrow> (Returns (Offer inner, None), w'))))))"

definition testBit :: "32 word \<Rightarrow> 32 word \<Rightarrow> bool" where
  "testBit bits bit' = ((bits AND bit') = bit')"

text \<open>
  The request parameters \<^verbatim>\<open>GetTradeOffers\<close> builds before it sends them. The cutoff
  argument is \<^verbatim>\<open>timeCutOff.Unix()\<close>, the seconds of the \<^verbatim>\<open>time.Time\<close> passed in.
  The \<^verbatim>\<open>println\<close> of the encoded parameters writes to standard error only and is
  left out.
\<close>

definition GetTradeOffers_params :: "Session \<Rightarrow> 32 word \<Rightarrow> 64 word \<Rightarrow> Values" where
  "GetTradeOffers_params session filter' timeCutOff =
     (let params = [(''key'', [apiKey session])];
          params = (if testBit filter' TradeFilterSentOffers
                    then Values_Set ''get_sent_offers'' ''1'' params else params);
          params = (if testBit filter' TradeFilterRecvOffers
                    then Values_Set ''get_received_offers'' ''1'' params else params);
          params = (if testBit filter' TradeFilterActiveOnly
                    then Values_Set ''time_historical_cutoff'' (FormatInt timeCutOff)
                           (Values_Set ''active_only'' ''1'' params)
                    else params);
          params = (if testBit filter' TradeFilterItemDescriptions
                    then Values_Set ''get_descriptions'' ''1'' params else params);
          params = (if testBit filter' TradeFilterHistoricalOnly
                    then Values_Set ''historical_only'' ''1'' params else params)
      in params)"

text \<open>
  One step of that building, \<^verbatim>\<open>if b { params.Set(k, v) }\<close>, named for the proofs.
\<close>

definition set_if :: "bool \<Rightarrow> string \<Rightarrow> string \<Rightarrow> Values \<Rightarrow> Values" where
  "set_if b k v vs = (if b then Values_Set k v vs else vs)"

definition GetTradeOffers ::
  "('item, 'sid) extern \<Rightarrow> Session \<Rightarrow> 32 word \<Rightarrow> 64 word \<Rightarrow> world
     \<Rightarrow> (TradeOfferResponse option \<times> error option) \<times> world" where
  "GetTradeOffers x session filter' timeCutOff w =
     (case client_Get w
             (apiGetTradeOffers x @
                Values_Encode (GetTradeOffers_params session filter' timeCutOff)) of
        ((resp, err), w') \<Rightarrow>
          (case err of
             Some e \<Rightarrow> ((None, Some e), w')
           | None \<Rightarrow>
               (case resp of
                  None \<Rightarrow> ((None, Some (ErrorsNew ''invalid response'')), w')
                | Some r \<Rightarrow>
                    (case json_Decode_APIResponse x (Body r) of
                       Inl e \<Rightarrow> ((None, Some e), w')
                     | Inr response \<Rightarrow> ((Inner response, None), w')))))"

definition GetMyTradeToken :: "world \<Rightarrow> (string \<times> error option) \<times> world" where
  "GetMyTradeToken w =
     (case client_Get w ''https://steamcommunity.com/my/tradeoffers/privacy'' of
        ((resp, err), w') \<Rightarrow>
          (case err of
             Some e \<Rightarrow> (([], Some e), w')
           | None \<Rightarrow>
               (case resp of
                  None \<Rightarrow> (([], Some (ErrorsNew ''invalid response'')), w')
                | Some r \<Rightarrow>
                    if StatusCode r \<noteq> http_StatusOK
                    then (([], Some (Errorf (''http error: '' @ format_int (StatusCode r)))), w')
                    else
                      (case io_ReadAll (Body r) of
                         (body, Some e) \<Rightarrow> (([], Some e), w')
                       | (body, None) \<Rightarrow>
                           (case offerInfoExp_FindStringSubmatch body of
                              None \<Rightarrow> (([], Some ErrCannotFindOfferInfo), w')
                            | Some m \<Rightarrow>
                                if length m \<noteq> 2
                                then (([], Some ErrCannotFindOfferInfo), w')
                                else ((m ! 1, None), w'))))))"

section \<open>Mutation operations\<close>

text \<open>
  \<^verbatim>\<open>SendTradeOffer\<close>, in the three stretches of its body. First the request: the
  \<^verbatim>\<open>content\<close> document is marshalled and the POST request is built with its two
  headers.
\<close>

definition SendTradeOffer_request ::
  "('item, 'sid) extern \<Rightarrow> Session \<Rightarrow> TradeOffer \<Rightarrow> 'sid \<Rightarrow> string \<Rightarrow> error + http_request"
  where
  "SendTradeOffer_request x session offer sid token =
     (case json_Marshal x
             \<lparr>newversion = True, version = 3,
              me = \<lparr>assets = SendItems offer, currency = [], ready = False\<rparr>,
              them = \<lparr>assets = RecvItems offer, currency = [], ready = False\<rparr>\<rparr> of
        Inl err \<Rightarrow> Inl err
      | Inr contentJSON \<Rightarrow>
          (case http_NewRequest x ''POST'' ''https://steamcommunity.com/tradeoffer/new/send''
                  (Values_Encode
                     [(''sessionid'', [sessionID session]),
                      (''serverid'', [''1'']),
                      (''partner'', [SteamID_ToString x sid]),
                      (''tradeoffermessage'', [Message offer]),
                      (''json_tradeoffer'', [contentJSON]),
                      (''trade_offer_create_params'',
                         [''{\"trade_offer_access_token\":\"'' @ token @ ''\"}''])]) of
             Inl err \<Rightarrow> Inl err
           | Inr req \<Rightarrow>
               Inr (Header_Set ''Content-Type'' ''application/x-www-form-urlencoded''
                      (Header_Add ''Referer''
                         (''https://steamcommunity.com/tradeoffer/new/?'' @
                            Values_Encode
                              [(''partner'', [FormatUint (ucast (SteamID_GetAccountID x sid))]),
                               (''token'', [token])])
                         req))))"

text \<open>
  Then the exchange: the request is sent and the body of the answer decoded into the
  local \<^verbatim>\<open>Response\<close>. The result is the decoded response, or the error the call
  returns at this point.
\<close>

definition SendTradeOffer_exchange ::
  "('item, 'sid) extern \<Rightarrow> Session \<Rightarrow> TradeOffer \<Rightarrow> 'sid \<Rightarrow> string \<Rightarrow> world
     \<Rightarrow> (error + SendResponse) \<times> world" where
  "SendTradeOffer_exchange x session offer sid token w =
     (case SendTradeOffer_request x session offer sid token of
        Inl err \<Rightarrow> (Inl err, w)
      | Inr req \<Rightarrow>
          (case client_Do w req of
             ((resp, err), w1) \<Rightarrow>
               (case err of
                  Some e \<Rightarrow> (Inl e, w1)
                | None \<Rightarrow>
                    (case resp of
                       None \<Rightarrow> (Inl (ErrorsNew ''invalid response''), w1)
                     | Some r \<Rightarrow> (json_Decode_SendResponse x (Body r), w1)))))"

text \<open>
  Last the two checks of the decoded response and the writes through the \<^verbatim>\<open>offer\<close>
  pointer: the model returns the offer as the call leaves it, beside the error.
\<close>

definition SendTradeOffer ::
  "('item, 'sid) extern \<Rightarrow> Session \<Rightarrow> TradeOffer \<Rightarrow> 'sid \<Rightarrow> string \<Rightarrow> world
     \<Rightarrow> (error option \<times> TradeOffer) \<times> world" where
  "SendTradeOffer x session offer sid token w =
     (case SendTradeOffer_exchange x session offer sid token w of
        (Inl err, w1) \<Rightarrow> ((Some err, offer), w1)
      | (Inr response, w1) \<Rightarrow>
          if length (send_ErrorMessage response) \<noteq> 0
          then ((Some (ErrorsNew (send_ErrorMessage response)), offer), w1)
          else if send_ID response = 0
          then ((Some (ErrorsNew ''no OfferID included''), offer), w1)
          else
            (case time_Now_Unix w1 of
               (t1, w2) \<Rightarrow>
                 (case time_Now_Unix w2 of
                    (t2, w3) \<Rightarrow>
                      (let offer = offer\<lparr>ID := send_ID response\<rparr>;
                           offer = offer\<lparr>Created := t1\<rparr>;
                           offer = offer\<lparr>Updated := t2\<rparr>;
                           offer = offer\<lparr>Expires := Created offer + 14 * 24 * 60 * 60\<rparr>;
                           offer = offer\<lparr>RealTime := False\<rparr>;
                           offer = offer\<lparr>IsOurOffer := True\<rparr>;
                           offer =
                             (if send_MobileConfirmationRequired response
                              then offer\<lparr>ConfirmationMethod := TradeConfirmationMobileApp\<rparr>
                                        \<lparr>State := TradeStateCreatedNeedsConfirmation\<rparr>
                              else offer\<lparr>State := TradeStateActive\<rparr>)
                       in ((None, offer), w3)))))"

text \<open>
  The loop of \<^verbatim>\<open>GetTradeReceivedItems\<close>: each match's group is unmarshalled in turn,
  and the first failure returns its error.
\<close>

fun unmarshal_matches ::
  "(string \<Rightarrow> error + 'item) \<Rightarrow> (string \<times> string) list \<Rightarrow> error + 'item list" where
  "unmarshal_matches u [] = Inr []"
| "unmarshal_matches u (m # ms) =
     (case u (snd m) of
        Inl err \<Rightarrow> Inl err
      | Inr item \<Rightarrow>
          (case unmarshal_matches u ms of
             Inl err \<Rightarrow> Inl err
           | Inr items \<Rightarrow> Inr (item # items)))"

definition GetTradeReceivedItems ::
  "('item, 'sid) extern \<Rightarrow> 64 word \<Rightarrow> world
     \<Rightarrow> ('item list option \<times> error option) \<times> world" where
  "GetTradeReceivedItems x receiptID w =
     (case client_Get w
             (''https://steamcommunity.com/trade/'' @ FormatUint receiptID @ ''/receipt'') of
        ((resp, err), w') \<Rightarrow>
          (case err of
             Some e \<Rightarrow> ((None, Some e), w')
           | None \<Rightarrow>
               (case resp of
                  None \<Rightarrow> ((None, Some (ErrorsNew ''invalid response'')), w')
                | Some r \<Rightarrow>
                    if StatusCode r \<noteq> http_StatusOK
                    then ((None, Some (Errorf (''http error: '' @ format_int (StatusCode r)))), w')
                    else
                      (case io_ReadAll (Body r) of
                         (body, Some e) \<Rightarrow> ((None, Some e), w')
                       | (body, None) \<Rightarrow>
                           (let m = receiptExp_FindAllSubmatch body
                            in if m = [] then ((None, Some ErrReceiptMatch), w')
                               else
                                 (case unmarshal_matches (json_Unmarshal_InventoryItem x) m of
                                    Inl e \<Rightarrow> ((None, Some e), w')
                                  | Inr items \<Rightarrow> ((Some items, None), w')))))))"

definition DeclineTradeOffer ::
  "('item, 'sid) extern \<Rightarrow> Session \<Rightarrow> 64 word \<Rightarrow> world \<Rightarrow> error option \<times> world" where
  "DeclineTradeOffer x session id' w =
     (case client_PostForm w (apiDeclineTradeOffer x)
             [(''key'', [apiKey session]), (''tradeofferid'', [FormatUint id'])] of
        ((resp, err), w') \<Rightarrow>
          (case err of
             Some e \<Rightarrow> (Some e, w')
           | None \<Rightarrow>
               (case resp of
                  None \<Rightarrow> (Some (ErrorsNew ''invalid response''), w')
                | Some r \<Rightarrow>
                    (let result = Header_Get r ''x-eresult''
                     in if result \<noteq> ''1''
                        then (Some (Errorf (''cannot decline trade: '' @ result)), w')
                        else (None, w')))))"

definition CancelTradeOffer ::
  "('item, 'sid) extern \<Rightarrow> Session \<Rightarrow> 64 word \<Rightarrow> world \<Rightarrow> error option \<times> world" where
  "CancelTradeOffer x session id' w =
     (case client_PostForm w (apiCancelTradeOffer x)
             [(''key'', [apiKey session]), (''tradeofferid'', [FormatUint id'])] of
        ((resp, err), w') \<Rightarrow>
          (case err of
             Some e \<Rightarrow> (Some e, w')
           | None \<Rightarrow>
               (case resp of
                  None \<Rightarrow> (Some (ErrorsNew ''invalid response''), w')
                | Some r \<Rightarrow>
                    (let result = Header_Get r ''x-eresult''
                     in if result \<noteq> ''1''
                        then (Some (Errorf (''cannot cancel trade: '' @ result)), w')
                        else (None, w')))))"

definition AcceptTradeOffer ::
  "('item, 'sid) extern \<Rightarrow> Session \<Rightarrow> 64 word \<Rightarrow> world \<Rightarrow> error option \<times> world" where
  "AcceptTradeOffer x session id' w =
     (let tid = FormatUint id';
          postURL = ''https://steamcommunity.com/tradeoffer/'' @ tid @ ''/'';
          data = Values_Encode [(''sessionid'', [sessionID session]),
                                (''serverid'', [''1'']),
                                (''tradeofferid'', [tid])]
      in case http_NewRequest x ''POST'' (postURL @ ''accept'') data of
           Inl err \<Rightarrow> (Some err, w)
         | Inr req \<Rightarrow>
             (case client_Do w
                     (Header_Set ''Content-Type''
                        ''application/x-www-form-urlencoded; charset=UTF-8''
                        (Header_Add ''Referer'' postURL req)) of
                ((resp, err), w') \<Rightarrow>
                  (case err of
                     Some e \<Rightarrow> (Some e, w')
                   | None \<Rightarrow>
                       (case resp of
                          None \<Rightarrow> (Some (ErrorsNew ''invalid response''), w')
                        | Some r \<Rightarrow>
                            if StatusCode r \<noteq> http_StatusOK
                            then (Some (Errorf (''http error: '' @ format_int (StatusCode r))), w')
                            else
                              (case json_Decode_AcceptResponse x (Body r) of
                                 Inl e \<Rightarrow> (Some e, w')
                               | Inr response \<Rightarrow>
                                   if length (accept_ErrorMessage response) \<noteq> 0
                                   then (Some (ErrorsNew (accept_ErrorMessage response)), w')
                                   else (None, w'))))))"

section \<open>The per-offer operations\<close>

definition Send ::
  "('item, 'sid) extern \<Rightarrow> TradeOffer \<Rightarrow> Session \<Rightarrow> 'sid \<Rightarrow> string \<Rightarrow> world
     \<Rightarrow> (error option \<times> TradeOffer) \<times> world" where
  "Send x offer session sid token w = SendTradeOffer x session offer sid token w"

definition Accept ::
  "('item, 'sid) extern \<Rightarrow> TradeOffer \<Rightarrow> Session \<Rightarrow> world \<Rightarrow> error option \<times> world" where
  "Accept x offer session w = AcceptTradeOffer x session (ID offer) w"

definition Cancel ::
  "('item, 'sid) extern \<Rightarrow> TradeOffer \<Rightarrow> Session \<Rightarrow> world \<Rightarrow> error option \<times> world" where
  "Cancel x offer session w =
     (if IsOurOffer offer then CancelTradeOffer x session (ID offer) w
      else DeclineTradeOffer x session (ID offer) w)"

section \<open>Sample environments\<close>

text \<open>
  A concrete library, server and offer, on which the theorems below are run. The
  decoders know a handful of bodies and reject every other one; an item fragment
  decodes (to itself) when it is a brace-delimited text without an exclamation mark.
\<close>

definition sample_send_plain :: string where
  "sample_send_plain = ''{\"tradeofferid\":\"77\",\"needs_email_confirmation\":true}''"

definition sample_send_mobile :: string where
  "sample_send_mobile = ''{\"tradeofferid\":\"78\",\"needs_mobile_confirmation\":true}''"

definition sample_send_refused :: string where
  "sample_send_refused = ''{\"strError\":\"refused\"}''"

definition sample_extern :: "(string, 64 word) extern" where
  "sample_extern =
     \<lparr>APIBaseUrl = ''https://api.steampowered.com'',
      SteamID_ToString = FormatUint,
      SteamID_GetAccountID = ucast,
      json_Marshal = (\<lambda>c. Inr ''{}''),
      http_NewRequest =
        (\<lambda>m u b. Inr \<lparr>req_Method = m, req_URL = u, req_Header = [], req_Body = b\<rparr>),
      json_Decode_APIResponse =
        (\<lambda>b. if fst b = ''{\"response\":{}}''
             then Inr \<lparr>Inner = Some \<lparr>Offer = None, SentOffers = [], ReceivedOffers = [],
                                     Descriptions = []\<rparr>\<rparr>
             else Inl (External ''json: cannot decode'')),
      json_Decode_SendResponse =
        (\<lambda>b. if fst b = sample_send_plain
             then Inr \<lparr>send_ErrorMessage = [], send_ID = 77,
                       send_MobileConfirmationRequired = False,
                       send_EmailConfirmationRequired = True, send_EmailDomain = []\<rparr>
             else if fst b = sample_send_mobile
             then Inr \<lparr>send_ErrorMessage = [], send_ID = 78,
                       send_MobileConfirmationRequired = True,
                       send_EmailConfirmationRequired = False, send_EmailDomain = []\<rparr>
             else if fst b = sample_send_refused
             then Inr \<lparr>send_ErrorMessage = ''refused'', send_ID = 0,
                       send_MobileConfirmationRequired = False,
                       send_EmailConfirmationRequired = False, send_EmailDomain = []\<rparr>
             else Inl (External ''json: cannot decode'')),
      json_Decode_AcceptResponse =
        (\<lambda>b. if fst b = ''{}'' then Inr \<lparr>accept_ErrorMessage = []\<rparr>
             else Inl (External ''json: cannot decode'')),
      json_Unmarshal_InventoryItem =
        (\<lambda>s. if s \<noteq> [] \<and> hd s = CHR ''{'' \<and> last s = CHR ''}'' \<and> CHR ''!'' \<notin> set s
             then Inr s
             else Inl (External ''json: cannot unmarshal''))\<rparr>"

text \<open>A server that answers every call with status 200, result header 1 and the body given.\<close>

definition sample_page :: "string \<Rightarrow> http_response" where
  "sample_page body =
     \<lparr>StatusCode = 200, Header_Get = (\<lambda>k. if k = ''x-eresult'' then ''1'' else []),
      Body = (body, None)\<rparr>"

definition sample_world :: "string \<Rightarrow> world" where
  "sample_world body =
     \<lparr>transport = (\<lambda>before c. (Some (sample_page body), None)), calls = [],
      clock = (\<lambda>n. 1700000000 + of_nat n), reads = 0\<rparr>"

text \<open>A server that cannot be reached.\<close>

definition sample_offline :: world where
  "sample_offline =
     \<lparr>transport = (\<lambda>before c. (None, Some (External ''dial tcp: i/o timeout''))), calls = [],
      clock = (\<lambda>n. 1700000000 + of_nat n), reads = 0\<rparr>"

definition sample_session :: Session where
  "sample_session = \<lparr>apiKey = ''KEY'', sessionID = ''SID''\<rparr>"

text \<open>An offer received from a partner and declined since.\<close>

definition sample_offer :: TradeOffer where
  "sample_offer =
     \<lparr>ID = 31, Partner = 5, ReceiptID = 0, RecvItems = [], SendItems = [],
      Message = ''hello'', State = TradeStateDeclined,
      ConfirmationMethod = TradeConfirmationMobile, Created = 1, Updated = 2, Expires = 3,
      EscrowEndDate = 4, RealTime = True, IsOurOffer = False\<rparr>"

section \<open>What a successful send writes\<close>

text \<open>
  The writes of \<^verbatim>\<open>SendTradeOffer\<close> as one record update, for a decoded response and
  the world the call started in (the exchange reads no clock).
\<close>

definition SendTradeOffer_written :: "SendResponse \<Rightarrow> world \<Rightarrow> TradeOffer \<Rightarrow> TradeOffer" where
  "SendTradeOffer_written response w offer =
     offer\<lparr>ID := send_ID response, Created := clock w (reads w),
           Updated := clock w (Suc (reads w)),
           Expires := clock w (reads w) + 14 * 24 * 3600,
           RealTime := False, IsOurOffer := True,
           State := (if send_MobileConfirmationRequired response
                     then TradeStateCreatedNeedsConfirmation else TradeStateActive),
           ConfirmationMethod := (if send_MobileConfirmationRequired response
                     then TradeConfirmationMobileApp else ConfirmationMethod offer)\<rparr>"

section \<open>Lemmas on the client and on sending\<close>

lemma round_trip_simps [simp]:
  "clock (snd (round_trip w c)) = clock w"
  "reads (snd (round_trip w c)) = reads w"
  "transport (snd (round_trip w c)) = transport w"
  "calls (snd (round_trip w c)) = calls w @ [c]"
  "fst (round_trip w c) = transport w (calls w) c"
  by (simp_all add: round_trip_def)

lemma SendTradeOffer_exchange_clock:
  "clock (snd (SendTradeOffer_exchange x session offer sid token w)) = clock w"
  "reads (snd (SendTradeOffer_exchange x session offer sid token w)) = reads w"
  by (auto simp add: SendTradeOffer_exchange_def client_Do_def round_trip_def
      split: sum.splits prod.splits option.splits)

text \<open>The three ways a send ends, read off the decoded response.\<close>

lemma SendTradeOffer_cases:
  "fst (SendTradeOffer x session offer sid token w) =
     (case fst (SendTradeOffer_exchange x session offer sid token w) of
        Inl e \<Rightarrow> (Some e, offer)
      | Inr response \<Rightarrow>
          if send_ErrorMessage response \<noteq> []
          then (Some (ErrorsNew (send_ErrorMessage response)), offer)
          else if send_ID response = 0 then (Some (ErrorsNew ''no OfferID included''), offer)
          else (None, SendTradeOffer_written response w offer))"
proof (cases "SendTradeOffer_exchange x session offer sid token w")
  case (Pair res w1)
  have c: "clock w1 = clock w" "reads w1 = reads w"
    using SendTradeOffer_exchange_clock [of x session offer sid token w] Pair by simp_all
  show ?thesis
  proof (cases res)
    case (Inl e)
    with Pair show ?thesis by (simp add: SendTradeOffer_def)
  next
    case (Inr response)
    with Pair c show ?thesis
      by (simp add: SendTradeOffer_def SendTradeOffer_written_def time_Now_Unix_def Let_def)
  qed
qed

text \<open>
  The causes of a failed send: the request cannot be built, the transport fails or
  returns nothing, the body does not decode, the response carries an error string or
  no offer ID. Each returns its error beside the offer as it was passed in.
\<close>

lemma SendTradeOffer_failures:
  "SendTradeOffer_request x session offer sid token = Inl e \<Longrightarrow>
     fst (SendTradeOffer x session offer sid token w) = (Some e, offer)"
  "SendTradeOffer_request x session offer sid token = Inr req \<Longrightarrow>
     transport w (calls w) (Do req) = (resp, Some e) \<Longrightarrow>
     fst (SendTradeOffer x session offer sid token w) = (Some e, offer)"
  "SendTradeOffer_request x session offer sid token = Inr req \<Longrightarrow>
     transport w (calls w) (Do req) = (None, None) \<Longrightarrow>
     fst (SendTradeOffer x session offer sid token w) =
       (Some (ErrorsNew ''invalid response''), offer)"
  "SendTradeOffer_request x session offer sid token = Inr req \<Longrightarrow>
     transport w (calls w) (Do req) = (Some r, None) \<Longrightarrow>
     json_Decode_SendResponse x (Body r) = Inl e \<Longrightarrow>
     fst (SendTradeOffer x session offer sid token w) = (Some e, offer)"
  "fst (SendTradeOffer_exchange x session offer sid token w) = Inr response \<Longrightarrow>
     send_ErrorMessage response \<noteq> [] \<Longrightarrow>
     fst (SendTradeOffer x session offer sid token w) =
       (Some (ErrorsNew (send_ErrorMessage response)), offer)"
  "fst (SendTradeOffer_exchange x session offer sid token w) = Inr response \<Longrightarrow>
     send_ErrorMessage response = [] \<Longrightarrow> send_ID response = 0 \<Longrightarrow>
     fst (SendTradeOffer x session offer sid token w) =
       (Some (ErrorsNew ''no OfferID included''), offer)"
  by (simp_all add: SendTradeOffer_cases SendTradeOffer_exchange_def client_Do_def
      round_trip_def)

text \<open>
  What the exchange returns once the request is built and the transport has answered
  it: the decoder's reading of the body of that answer.
\<close>

lemma SendTradeOffer_exchange_answer:
  "SendTradeOffer_request x session offer sid token = Inr req \<Longrightarrow>
     transport w (calls w) (Do req) = (Some r, None) \<Longrightarrow>
     fst (SendTradeOffer_exchange x session offer sid token w) =
       json_Decode_SendResponse x (Body r)"
  by (simp add: SendTradeOffer_exchange_def client_Do_def round_trip_def)

section \<open>Sending an offer\<close>

text \<open>
  Claim C2. For every successful \<^verbatim>\<open>SendTradeOffer\<close> call, with \<open>r\<close> the answer
  the transport returns to the request sent and \<open>response\<close> what the decoder reads
  from its body: the offer ends with State CreatedNeedsConfirmation and
  ConfirmationMethod MobileApp if and only if the response signals that mobile
  confirmation is required, and otherwise with State Active. The State is
  CreatedNeedsConfirmation only on the mobile signal, whatever the email signal says.
\<close>

theorem SendTradeOffer_state:
  assumes "SendTradeOffer_request x session offer sid token = Inr req"
    and "transport w (calls w) (Do req) = (Some r, None)"
    and "json_Decode_SendResponse x (Body r) = Inr response"
    and "fst (SendTradeOffer x session offer sid token w) = (None, offer')"
  shows "((State offer' = TradeStateCreatedNeedsConfirmation \<and>
           ConfirmationMethod offer' = TradeConfirmationMobileApp)
          \<longleftrightarrow> send_MobileConfirmationRequired response) \<and>
         (State offer' = TradeStateCreatedNeedsConfirmation
          \<longleftrightarrow> send_MobileConfirmationRequired response) \<and>
         (\<not> send_MobileConfirmationRequired response \<longrightarrow> State offer' = TradeStateActive)"
proof -
  from assms(1-3) have "fst (SendTradeOffer_exchange x session offer sid token w) = Inr response"
    by (simp add: SendTradeOffer_exchange_answer)
  with assms(4) show ?thesis
    by (auto simp add: SendTradeOffer_cases SendTradeOffer_written_def
        TradeStateCreatedNeedsConfirmation_def TradeStateActive_def split: if_splits)
qed

text \<open>
  Two servers. The first signals mobile confirmation: the offer, Declined with the
  confirmation method Mobile before the call, ends in CreatedNeedsConfirmation with the
  method MobileApp. The second sets the email signal and not the mobile one: the offer
  ends Active.
\<close>

theorem SendTradeOffer_state_witness:
  "json_Decode_SendResponse sample_extern (Body (sample_page sample_send_mobile)) =
     Inr \<lparr>send_ErrorMessage = [], send_ID = 78, send_MobileConfirmationRequired = True,
          send_EmailConfirmationRequired = False, send_EmailDomain = []\<rparr> \<and>
   fst (fst (SendTradeOffer sample_extern sample_session sample_offer 5 ''tok''
          (sample_world sample_send_mobile))) = None \<and>
   State (snd (fst (SendTradeOffer sample_extern sample_session sample_offer 5 ''tok''
          (sample_world sample_send_mobile)))) = TradeStateCreatedNeedsConfirmation \<and>
   ConfirmationMethod (snd (fst (SendTradeOffer sample_extern sample_session sample_offer 5
          ''tok'' (sample_world sample_send_mobile)))) = TradeConfirmationMobileApp \<and>
   json_Decode_SendResponse sample_extern (Body (sample_page sample_send_plain)) =
     Inr \<lparr>send_ErrorMessage = [], send_ID = 77, send_MobileConfirmationRequired = False,
          send_EmailConfirmationRequired = True, send_EmailDomain = []\<rparr> \<and>
   fst (fst (SendTradeOffer sample_extern sample_session sample_offer 5 ''tok''
          (sample_world sample_send_plain))) = None \<and>
   State (snd (fst (SendTradeOffer sample_extern sample_session sample_offer 5 ''tok''
          (sample_world sample_send_plain)))) = TradeStateActive"
proof -
  obtain req where q: "SendTradeOffer_request sample_extern sample_session sample_offer 5
      ''tok'' = Inr req"
    by (simp add: SendTradeOffer_request_def sample_extern_def)
  have t: "transport (sample_world b) (calls (sample_world b)) (Do req) =
             (Some (sample_page b), None)" for b
    by (simp add: sample_world_def)
  have dm: "json_Decode_SendResponse sample_extern (Body (sample_page sample_send_mobile)) =
     Inr \<lparr>send_ErrorMessage = [], send_ID = 78, send_MobileConfirmationRequired = True,
          send_EmailConfirmationRequired = False, send_EmailDomain = []\<rparr>"
    by code_simp
  have dp: "json_Decode_SendResponse sample_extern (Body (sample_page sample_send_plain)) =
     Inr \<lparr>send_ErrorMessage = [], send_ID = 77, send_MobileConfirmationRequired = False,
          send_EmailConfirmationRequired = True, send_EmailDomain = []\<rparr>"
    by code_simp
  have m0: "fst (fst (SendTradeOffer sample_extern sample_session sample_offer 5 ''tok''
          (sample_world sample_send_mobile))) = None"
    by code_simp
  then have m: "fst (SendTradeOffer sample_extern sample_session sample_offer 5 ''tok''
          (sample_world sample_send_mobile)) =
     (None, snd (fst (SendTradeOffer sample_extern sample_session sample_offer 5 ''tok''
          (sample_world sample_send_mobile))))"
    by (metis prod.collapse)
  have p0: "fst (fst (SendTradeOffer sample_extern sample_session sample_offer 5 ''tok''
          (sample_world sample_send_plain))) = None"
    by code_simp
  then have p: "fst (SendTradeOffer sample_extern sample_session sample_offer 5 ''tok''
          (sample_world sample_send_plain)) =
     (None, snd (fst (SendTradeOffer sample_extern sample_session sample_offer 5 ''tok''
          (sample_world sample_send_plain))))"
    by (metis prod.collapse)
  from SendTradeOffer_state [OF q t dm m]
  have a: "State (snd (fst (SendTradeOffer sample_extern sample_session sample_offer 5 ''tok''
          (sample_world sample_send_mobile)))) = TradeStateCreatedNeedsConfirmation \<and>
     ConfirmationMethod (snd (fst (SendTradeOffer sample_extern sample_session sample_offer 5
          ''tok'' (sample_world sample_send_mobile)))) = TradeConfirmationMobileApp"
    by simp
  from SendTradeOffer_state [OF q t dp p]
  have b: "State (snd (fst (SendTradeOffer sample_extern sample_session sample_offer 5 ''tok''
          (sample_world sample_send_plain)))) = TradeStateActive"
    by simp
  from a b dm dp m0 p0 show ?thesis by simp
qed

text \<open>
  Claim C6. For every successful \<^verbatim>\<open>SendTradeOffer\<close> call the offer is left with
  Expires = Created + 14*24*3600 (in 64-bit arithmetic) and IsOurOffer set; Created and
  Updated are the two readings of the clock that the call takes, in this order.
\<close>

theorem SendTradeOffer_expiry:
  assumes "fst (SendTradeOffer x session offer sid token w) = (None, offer')"
  shows "Expires offer' = Created offer' + 14 * 24 * 3600 \<and> IsOurOffer offer' \<and>
         Created offer' = clock w (reads w) \<and> Updated offer' = clock w (Suc (reads w))"
  using assms
  by (auto simp add: SendTradeOffer_cases SendTradeOffer_written_def
      split: sum.splits if_splits)

theorem SendTradeOffer_expiry_witness:
  "fst (fst (SendTradeOffer sample_extern sample_session sample_offer 5 ''tok''
          (sample_world sample_send_mobile))) = None \<and>
   Created (snd (fst (SendTradeOffer sample_extern sample_session sample_offer 5 ''tok''
          (sample_world sample_send_mobile)))) = 1700000000 \<and>
   Updated (snd (fst (SendTradeOffer sample_extern sample_session sample_offer 5 ''tok''
          (sample_world sample_send_mobile)))) = 1700000001 \<and>
   Expires (snd (fst (SendTradeOffer sample_extern sample_session sample_offer 5 ''tok''
          (sample_world sample_send_mobile)))) = 1701209600 \<and>
   IsOurOffer (snd (fst (SendTradeOffer sample_extern sample_session sample_offer 5 ''tok''
          (sample_world sample_send_mobile))))"
proof -
  have h0: "fst (fst (SendTradeOffer sample_extern sample_session sample_offer 5 ''tok''
          (sample_world sample_send_mobile))) = None"
    by code_simp
  then have h: "fst (SendTradeOffer sample_extern sample_session sample_offer 5 ''tok''
          (sample_world sample_send_mobile)) =
     (None, snd (fst (SendTradeOffer sample_extern sample_session sample_offer 5 ''tok''
          (sample_world sample_send_mobile))))"
    by (metis prod.collapse)
  have c: "clock (sample_world sample_send_mobile) (reads (sample_world sample_send_mobile)) =
             1700000000"
    "clock (sample_world sample_send_mobile) (Suc (reads (sample_world sample_send_mobile))) =
             1700000001"
    by (simp_all add: sample_world_def)
  from SendTradeOffer_expiry [OF h] h0 c show ?thesis by simp
qed

text \<open>
  Claim C9. \<^verbatim>\<open>SendTradeOffer\<close> is atomic on failure: whenever the call returns an
  error, whatever its cause, the offer is left exactly as it was before the call.
\<close>

theorem SendTradeOffer_atomic:
  assumes "fst (SendTradeOffer x session offer sid token w) = (Some e, offer')"
  shows "offer' = offer"
  using assms
  by (auto simp add: SendTradeOffer_cases split: sum.splits if_splits)

text \<open>The server refuses the offer with an error string.\<close>

theorem SendTradeOffer_atomic_witness:
  "fst (fst (SendTradeOffer sample_extern sample_session sample_offer 5 ''tok''
          (sample_world sample_send_refused))) = Some (ErrorsNew ''refused'') \<and>
   snd (fst (SendTradeOffer sample_extern sample_session sample_offer 5 ''tok''
          (sample_world sample_send_refused))) = sample_offer"
proof -
  have h0: "fst (fst (SendTradeOffer sample_extern sample_session sample_offer 5 ''tok''
          (sample_world sample_send_refused))) = Some (ErrorsNew ''refused'')"
    by code_simp
  then have h: "fst (SendTradeOffer sample_extern sample_session sample_offer 5 ''tok''
          (sample_world sample_send_refused)) =
     (Some (ErrorsNew ''refused''),
      snd (fst (SendTradeOffer sample_extern sample_session sample_offer 5 ''tok''
          (sample_world sample_send_refused))))"
    by (metis prod.collapse)
  from SendTradeOffer_atomic [OF h] h0 show ?thesis by simp
qed

text \<open>
  Claim C10. On success \<^verbatim>\<open>SendTradeOffer\<close> writes only the fields ID, Created,
  Updated, Expires, RealTime, IsOurOffer and State, and ConfirmationMethod only when the
  response signals mobile confirmation: Partner, Message, SendItems, RecvItems,
  ReceiptID and EscrowEndDate keep their values, and without the mobile signal
  ConfirmationMethod keeps the value it had before the call.
\<close>

theorem SendTradeOffer_frame:
  assumes "fst (SendTradeOffer_exchange x session offer sid token w) = Inr response"
    and "fst (SendTradeOffer x session offer sid token w) = (None, offer')"
  shows "offer' = offer\<lparr>ID := ID offer', Created := Created offer', Updated := Updated offer',
                       Expires := Expires offer', RealTime := RealTime offer',
                       IsOurOffer := IsOurOffer offer', State := State offer',
                       ConfirmationMethod :=
                         (if send_MobileConfirmationRequired response
                          then TradeConfirmationMobileApp else ConfirmationMethod offer)\<rparr> \<and>
         Partner offer' = Partner offer \<and> Message offer' = Message offer \<and>
         SendItems offer' = SendItems offer \<and> RecvItems offer' = RecvItems offer \<and>
         ReceiptID offer' = ReceiptID offer \<and> EscrowEndDate offer' = EscrowEndDate offer \<and>
         (\<not> send_MobileConfirmationRequired response
          \<longrightarrow> ConfirmationMethod offer' = ConfirmationMethod offer)"
  using assms
  by (auto simp add: SendTradeOffer_cases SendTradeOffer_written_def split: if_splits)

text \<open>
  Without the mobile signal the sample offer keeps its confirmation method Mobile (it is
  not reset to None), its partner and its message.
\<close>

theorem SendTradeOffer_frame_witness:
  "fst (SendTradeOffer_exchange sample_extern sample_session sample_offer 5 ''tok''
          (sample_world sample_send_plain)) =
     Inr \<lparr>send_ErrorMessage = [], send_ID = 77, send_MobileConfirmationRequired = False,
          send_EmailConfirmationRequired = True, send_EmailDomain = []\<rparr> \<and>
   fst (fst (SendTradeOffer sample_extern sample_session sample_offer 5 ''tok''
          (sample_world sample_send_plain))) = None \<and>
   ConfirmationMethod (snd (fst (SendTradeOffer sample_extern sample_session sample_offer 5
          ''tok'' (sample_world sample_send_plain)))) = TradeConfirmationMobile \<and>
   Partner (snd (fst (SendTradeOffer sample_extern sample_session sample_offer 5
          ''tok'' (sample_world sample_send_plain)))) = 5 \<and>
   Message (snd (fst (SendTradeOffer sample_extern sample_session sample_offer 5
          ''tok'' (sample_world sample_send_plain)))) = ''hello''"
proof -
  have h1: "fst (SendTradeOffer_exchange sample_extern sample_session sample_offer 5 ''tok''
          (sample_world sample_send_plain)) =
     Inr \<lparr>send_ErrorMessage = [], send_ID = 77, send_MobileConfirmationRequired = False,
          send_EmailConfirmationRequired = True, send_EmailDomain = []\<rparr>"
    by code_simp
  have h0: "fst (fst (SendTradeOffer sample_extern sample_session sample_offer 5 ''tok''
          (sample_world sample_send_plain))) = None"
    by code_simp
  then have h2: "fst (SendTradeOffer sample_extern sample_session sample_offer 5 ''tok''
          (sample_world sample_send_plain)) =
     (None, snd (fst (SendTradeOffer sample_extern sample_session sample_offer 5 ''tok''
          (sample_world sample_send_plain))))"
    by (metis prod.collapse)
  have o: "ConfirmationMethod sample_offer = TradeConfirmationMobile"
    "Partner sample_offer = 5" "Message sample_offer = ''hello''"
    by (simp_all add: sample_offer_def)
  from SendTradeOffer_frame [OF h1 h2] h1 h0 o show ?thesis by simp
qed

section \<open>Cancelling and accepting an offer\<close>

lemma CancelTradeOffer_calls:
  "calls (snd (CancelTradeOffer x session n w)) =
     calls w @ [PostForm (apiCancelTradeOffer x)
                  [(''key'', [apiKey session]), (''tradeofferid'', [FormatUint n])]]"
  by (simp add: CancelTradeOffer_def client_PostForm_def round_trip_def Let_def
      split: option.splits prod.splits)

lemma DeclineTradeOffer_calls:
  "calls (snd (DeclineTradeOffer x session n w)) =
     calls w @ [PostForm (apiDeclineTradeOffer x)
                  [(''key'', [apiKey session]), (''tradeofferid'', [FormatUint n])]]"
  by (simp add: DeclineTradeOffer_def client_PostForm_def round_trip_def Let_def
      split: option.splits prod.splits)

lemma cancel_decline_endpoints: "apiCancelTradeOffer x \<noteq> apiDeclineTradeOffer x"
  by (simp add: apiCancelTradeOffer_def apiDeclineTradeOffer_def)

text \<open>
  Claim C3. \<^verbatim>\<open>offer.Cancel()\<close> is \<^verbatim>\<open>CancelTradeOffer\<close> on the offer's own ID when
  IsOurOffer is set and \<^verbatim>\<open>DeclineTradeOffer\<close> on the offer's own ID when it is not;
  the one call it makes is a form post to the cancel endpoint in the first case and to
  the decline endpoint in the second, with the offer's ID as \<^verbatim>\<open>tradeofferid\<close>; the two
  endpoints differ.
\<close>

theorem Cancel_dispatch:
  "Cancel x offer session w =
     (if IsOurOffer offer then CancelTradeOffer x session (ID offer) w
      else DeclineTradeOffer x session (ID offer) w) \<and>
   calls (snd (Cancel x offer session w)) =
     calls w @
       [PostForm (if IsOurOffer offer then apiCancelTradeOffer x else apiDeclineTradeOffer x)
          [(''key'', [apiKey session]), (''tradeofferid'', [FormatUint (ID offer)])]] \<and>
   apiCancelTradeOffer x \<noteq> apiDeclineTradeOffer x"
  by (simp add: Cancel_def CancelTradeOffer_calls DeclineTradeOffer_calls
      cancel_decline_endpoints)

text \<open>\<^verbatim>\<open>offer.Accept()\<close> reads the ID of the offer and nothing else.\<close>

lemma Accept_State_unread:
  "Accept x (offer\<lparr>State := s\<rparr>) session w = Accept x offer session w"
  by (simp add: Accept_def)

text \<open>
  Claim C1, on the code. The sample offer is in the state Declined, which is not Active;
  \<^verbatim>\<open>offer.Accept()\<close> posts the accept request for it all the same and, the server
  answering with status 200 and no error string, returns no error. The error declared
  as \<^verbatim>\<open>ErrCannotAcceptActive\<close> is not returned.
\<close>

theorem Accept_non_active_offer:
  "State sample_offer = TradeStateDeclined \<and> TradeStateDeclined \<noteq> TradeStateActive \<and>
   fst (Accept sample_extern sample_offer sample_session (sample_world ''{}'')) = None \<and>
   calls (snd (Accept sample_extern sample_offer sample_session (sample_world ''{}''))) =
     [Do \<lparr>req_Method = ''POST'',
          req_URL = ''https://steamcommunity.com/tradeoffer/31/accept'',
          req_Header =
            [(''Referer'', [''https://steamcommunity.com/tradeoffer/31/'']),
             (''Content-Type'', [''application/x-www-form-urlencoded; charset=UTF-8''])],
          req_Body = ''serverid=1&sessionid=SID&tradeofferid=31''\<rparr>]"
  by code_simp

section \<open>Fetching one offer\<close>

text \<open>
  Claim C4 as stated fails: for a body that decodes to an envelope whose response
  object carries no offer, \<^verbatim>\<open>GetTradeOffer\<close> returns a nil offer and a nil error.
\<close>

theorem GetTradeOffer_empty_envelope_succeeds:
  "json_Decode_APIResponse sample_extern (''{\"response\":{}}'', None) =
     Inr \<lparr>Inner = Some \<lparr>Offer = None, SentOffers = [], ReceivedOffers = [],
                         Descriptions = []\<rparr>\<rparr> \<and>
   fst (GetTradeOffer sample_extern sample_session 31 (sample_world ''{\"response\":{}}'')) =
     Returns (None, None)"
  by code_simp

text \<open>
  Claim C4, amended. When the transport returns an error, \<^verbatim>\<open>GetTradeOffer\<close> returns
  that error; when the body does not decode, it returns the decoder's error; when the
  body decodes to an envelope with a response object, it returns the offer pointer of
  that object and no error, so for a response object that carries no offer it returns
  a nil offer and a nil error.
\<close>

theorem GetTradeOffer_results:
  "(transport w (calls w)
      (Get (apiGetTradeOffer x @
            Values_Encode [(''key'', [apiKey session]), (''tradeofferid'', [FormatUint n])])) =
      (resp, Some e)
    \<longrightarrow> fst (GetTradeOffer x session n w) = Returns (None, Some e)) \<and>
   (transport w (calls w)
      (Get (apiGetTradeOffer x @
            Values_Encode [(''key'', [apiKey session]), (''tradeofferid'', [FormatUint n])])) =
      (Some r, None) \<and>
    json_Decode_APIResponse x (Body r) = Inl e
    \<longrightarrow> fst (GetTradeOffer x session n w) = Returns (None, Some e)) \<and>
   (transport w (calls w)
      (Get (apiGetTradeOffer x @
            Values_Encode [(''key'', [apiKey session]), (''tradeofferid'', [FormatUint n])])) =
      (Some r, None) \<and>
    json_Decode_APIResponse x (Body r) = Inr response \<and> Inner response = Some inner
    \<longrightarrow> fst (GetTradeOffer x session n w) = Returns (Offer inner, None) \<and>
        (Offer inner = None \<longrightarrow> fst (GetTradeOffer x session n w) = Returns (None, None)))"
  by (simp add: GetTradeOffer_def client_Get_def round_trip_def)

text \<open>An unreachable server, a body that is no JSON, and the empty envelope.\<close>

theorem GetTradeOffer_results_witness:
  "fst (GetTradeOffer sample_extern sample_session 31 sample_offline) =
     Returns (None, Some (External ''dial tcp: i/o timeout'')) \<and>
   fst (GetTradeOffer sample_extern sample_session 31 (sample_world ''<html>'')) =
     Returns (None, Some (External ''json: cannot decode'')) \<and>
   fst (GetTradeOffer sample_extern sample_session 31 (sample_world ''{\"response\":{}}'')) =
     Returns (None, None)"
proof -
  have t1: "transport sample_offline (calls sample_offline) c =
              (None, Some (External ''dial tcp: i/o timeout''))" for c
    by (simp add: sample_offline_def)
  have t2: "transport (sample_world b) (calls (sample_world b)) c = (Some (sample_page b), None)"
    for b c
    by (simp add: sample_world_def)
  have d2: "json_Decode_APIResponse sample_extern (Body (sample_page ''<html>'')) =
              Inl (External ''json: cannot decode'')"
    by code_simp
  have d3: "json_Decode_APIResponse sample_extern (Body (sample_page ''{\"response\":{}}'')) =
              Inr \<lparr>Inner = Some \<lparr>Offer = None, SentOffers = [], ReceivedOffers = [],
                                  Descriptions = []\<rparr>\<rparr>"
    by code_simp
  have i3: "Inner \<lparr>Inner = Some \<lparr>Offer = None, SentOffers = [], ReceivedOffers = [],
                                  Descriptions = []\<rparr>\<rparr> =
              Some \<lparr>Offer = None, SentOffers = [], ReceivedOffers = [], Descriptions = []\<rparr>"
    by simp
  from GetTradeOffer_results [of sample_offline sample_extern sample_session 31 None
        "External ''dial tcp: i/o timeout''"] t1
  have a: "fst (GetTradeOffer sample_extern sample_session 31 sample_offline) =
             Returns (None, Some (External ''dial tcp: i/o timeout''))"
    by blast
  from GetTradeOffer_results [of "sample_world ''<html>''" sample_extern sample_session 31 _
        "External ''json: cannot decode''" "sample_page ''<html>''"] t2 d2
  have b: "fst (GetTradeOffer sample_extern sample_session 31 (sample_world ''<html>'')) =
             Returns (None, Some (External ''json: cannot decode''))"
    by blast
  from GetTradeOffer_results [of "sample_world ''{\"response\":{}}''" sample_extern
        sample_session 31 _ _ "sample_page ''{\"response\":{}}''" _ _] t2 d3 i3
  have c: "fst (GetTradeOffer sample_extern sample_session 31
             (sample_world ''{\"response\":{}}'')) = Returns (None, None)"
    by (metis TradeOfferResponse.select_convs(1))
  from a b c show ?thesis by simp
qed

text \<open>
  A body that decodes to an envelope without a response object leaves
  \<^verbatim>\<open>response.Inner\<close> nil, and the read of its \<^verbatim>\<open>Offer\<close> field panics.
\<close>

lemma GetTradeOffer_no_response_object:
  "transport w (calls w)
     (Get (apiGetTradeOffer x @
           Values_Encode [(''key'', [apiKey session]), (''tradeofferid'', [FormatUint n])])) =
     (Some r, None) \<Longrightarrow>
   json_Decode_APIResponse x (Body r) = Inr response \<Longrightarrow> Inner response = None \<Longrightarrow>
   fst (GetTradeOffer x session n w) = Panics"
  by (simp add: GetTradeOffer_def client_Get_def round_trip_def)

section \<open>Listing offers: the filter flags\<close>

lemma and_single_bit:
  assumes "n < 32"
  shows "((f::32 word) AND push_bit n 1 = push_bit n 1) = bit f n"
proof
  assume "f AND push_bit n 1 = push_bit n 1"
  then have "bit (f AND push_bit n 1) n = bit (push_bit n 1 :: 32 word) n"
    by simp
  with assms show "bit f n"
    by (simp add: bit_and_iff bit_push_bit_iff bit_exp_iff)
next
  assume b: "bit f n"
  show "f AND push_bit n 1 = push_bit n 1"
    by (rule bit_word_eqI) (auto simp add: bit_and_iff bit_push_bit_iff bit_exp_iff b)
qed

text \<open>Each flag tests one bit of the mask, and the five bits are different ones.\<close>

lemma testBit_flags:
  "testBit f TradeFilterSentOffers = bit f 0"
  "testBit f TradeFilterRecvOffers = bit f 1"
  "testBit f TradeFilterActiveOnly = bit f 3"
  "testBit f TradeFilterHistoricalOnly = bit f 4"
  "testBit f TradeFilterItemDescriptions = bit f 5"
  unfolding testBit_def TradeFilterSentOffers_def TradeFilterRecvOffers_def
    TradeFilterActiveOnly_def TradeFilterHistoricalOnly_def TradeFilterItemDescriptions_def
  by (simp_all only: and_single_bit)

lemma map_of_set_if:
  "map_of (set_if b k v vs) k' = (if b \<and> k' = k then Some [v] else map_of vs k')"
  by (simp add: set_if_def Values_Set_def update_conv')

lemma keys_set_if: "fst ` set (set_if b k v vs) \<subseteq> insert k (fst ` set vs)"
  using dom_update [of k "[v]" vs]
  by (auto simp add: set_if_def Values_Set_def dom_map_of_conv_image_fst)

lemma keys_set_if_in:
  "fst ` set vs \<subseteq> S \<Longrightarrow> k \<in> S \<Longrightarrow> fst ` set (set_if b k v vs) \<subseteq> S"
  using keys_set_if [of b k v vs] by blast

lemma distinct_set_if: "distinct (map fst vs) \<Longrightarrow> distinct (map fst (set_if b k v vs))"
  by (simp add: set_if_def Values_Set_def distinct_update)

lemma GetTradeOffers_params_steps:
  "GetTradeOffers_params session f t =
     set_if (testBit f TradeFilterHistoricalOnly) ''historical_only'' ''1''
       (set_if (testBit f TradeFilterItemDescriptions) ''get_descriptions'' ''1''
          (set_if (testBit f TradeFilterActiveOnly) ''time_historical_cutoff'' (FormatInt t)
             (set_if (testBit f TradeFilterActiveOnly) ''active_only'' ''1''
                (set_if (testBit f TradeFilterRecvOffers) ''get_received_offers'' ''1''
                   (set_if (testBit f TradeFilterSentOffers) ''get_sent_offers'' ''1''
                      [(''key'', [apiKey session])])))))"
  unfolding GetTradeOffers_params_def Let_def set_if_def
  by (cases "testBit f TradeFilterActiveOnly") simp_all

lemma GetTradeOffers_params_keys:
  "fst ` set (GetTradeOffers_params session f t) \<subseteq>
     {''key'', ''get_sent_offers'', ''get_received_offers'', ''active_only'',
      ''time_historical_cutoff'', ''get_descriptions'', ''historical_only''}"
  unfolding GetTradeOffers_params_steps
  by (intro keys_set_if_in) simp_all

lemma GetTradeOffers_calls:
  "calls (snd (GetTradeOffers x session f t w)) =
     calls w @ [Get (apiGetTradeOffers x @ Values_Encode (GetTradeOffers_params session f t))]"
  by (simp add: GetTradeOffers_def client_Get_def round_trip_def
      split: option.splits prod.splits sum.splits)

text \<open>A formatted integer is digits and a sign, which the query encoding leaves alone.\<close>

lemma escape_digit: "d < 10 \<Longrightarrow> escape_byte (char_of (48 + d)) = [char_of (48 + d :: nat)]"
  by (simp add: escape_byte_def shouldEscape_def less_eq_char_def)

lemma QueryEscape_format_nat: "QueryEscape (format_nat n) = format_nat n"
proof (induction n rule: format_nat.induct)
  case (1 n)
  show ?case
  proof (cases "n < 10")
    case True
    then show ?thesis
      by (simp add: format_nat.simps [of n] QueryEscape_def escape_digit)
  next
    case False
    with 1 have "QueryEscape (format_nat (n div 10)) = format_nat (n div 10)"
      by simp
    moreover have "escape_byte (char_of (48 + n mod 10)) = [char_of (48 + n mod 10)]"
      by (rule escape_digit) simp
    ultimately show ?thesis
      using False by (simp add: format_nat.simps [of n] QueryEscape_def)
  qed
qed

lemma QueryEscape_FormatInt: "QueryEscape (FormatInt t) = FormatInt t"
proof -
  have m: "escape_byte CHR ''-'' = ''-''"
    by (simp add: escape_byte_def shouldEscape_def)
  have "QueryEscape (''-'' @ s) = ''-'' @ QueryEscape s" for s
    by (simp add: QueryEscape_def m)
  then show ?thesis
    by (simp add: FormatInt_def format_int_def QueryEscape_format_nat)
qed

text \<open>The query for the mask \<^verbatim>\<open>SentOffers | ActiveOnly\<close>, as \<^verbatim>\<open>Encode\<close> writes it.\<close>

lemma GetTradeOffers_sent_active_query:
  "Values_Encode
     (GetTradeOffers_params session (TradeFilterSentOffers OR TradeFilterActiveOnly) t) =
   ''active_only=1&get_sent_offers=1&key='' @ QueryEscape (apiKey session) @
   ''&time_historical_cutoff='' @ FormatInt t"
proof -
  have "GetTradeOffers_params session (TradeFilterSentOffers OR TradeFilterActiveOnly) t =
     [(''key'', [apiKey session]), (''get_sent_offers'', [''1'']), (''active_only'', [''1'']),
      (''time_historical_cutoff'', [FormatInt t])]"
    unfolding GetTradeOffers_params_steps testBit_flags
    by (simp add: TradeFilterSentOffers_def TradeFilterActiveOnly_def set_if_def
        Values_Set_def bit_or_iff)
  moreover have "sort [''key'', ''get_sent_offers'', ''active_only'', ''time_historical_cutoff''] =
      [''active_only'', ''get_sent_offers'', ''key'', ''time_historical_cutoff'']"
    by code_simp
  moreover have "QueryEscape ''active_only'' = ''active_only''"
    "QueryEscape ''get_sent_offers'' = ''get_sent_offers''"
    "QueryEscape ''key'' = ''key''"
    "QueryEscape ''time_historical_cutoff'' = ''time_historical_cutoff''"
    "QueryEscape ''1'' = ''1''"
    by code_simp+
  ultimately show ?thesis
    by (simp add: Values_Encode_def QueryEscape_FormatInt)
qed

text \<open>
  Claim C7. For every filter mask: the request parameters of \<^verbatim>\<open>GetTradeOffers\<close> hold
  the key, and each further parameter is present (with its documented value) exactly
  when the one flag it belongs to is in the mask: \<^verbatim>\<open>get_sent_offers\<close> for SentOffers,
  \<^verbatim>\<open>get_received_offers\<close> for RecvOffers, \<^verbatim>\<open>active_only\<close> and
  \<^verbatim>\<open>time_historical_cutoff\<close> (the cutoff in seconds) for ActiveOnly,
  \<^verbatim>\<open>get_descriptions\<close> for ItemDescriptions, \<^verbatim>\<open>historical_only\<close> for HistoricalOnly;
  no other parameter is ever present and none is present twice. The five flags test
  five different bits of the mask, so none implies another. The request sent is a GET of
  the encoded parameters, and for the mask \<^verbatim>\<open>SentOffers | ActiveOnly\<close> with cutoff
  \<open>t\<close> the encoded query reads
  \<^verbatim>\<open>active_only=1&get_sent_offers=1&key=...&time_historical_cutoff=t\<close>,
  with no \<^verbatim>\<open>get_received_offers\<close> parameter.
\<close>

theorem GetTradeOffers_filter_flags:
  "map_of (GetTradeOffers_params session f t) ''key'' = Some [apiKey session] \<and>
   map_of (GetTradeOffers_params session f t) ''get_sent_offers'' =
     (if testBit f TradeFilterSentOffers then Some [''1''] else None) \<and>
   map_of (GetTradeOffers_params session f t) ''get_received_offers'' =
     (if testBit f TradeFilterRecvOffers then Some [''1''] else None) \<and>
   map_of (GetTradeOffers_params session f t) ''active_only'' =
     (if testBit f TradeFilterActiveOnly then Some [''1''] else None) \<and>
   map_of (GetTradeOffers_params session f t) ''time_historical_cutoff'' =
     (if testBit f TradeFilterActiveOnly then Some [FormatInt t] else None) \<and>
   map_of (GetTradeOffers_params session f t) ''get_descriptions'' =
     (if testBit f TradeFilterItemDescriptions then Some [''1''] else None) \<and>
   map_of (GetTradeOffers_params session f t) ''historical_only'' =
     (if testBit f TradeFilterHistoricalOnly then Some [''1''] else None) \<and>
   fst ` set (GetTradeOffers_params session f t) \<subseteq>
     {''key'', ''get_sent_offers'', ''get_received_offers'', ''active_only'',
      ''time_historical_cutoff'', ''get_descriptions'', ''historical_only''} \<and>
   distinct (map fst (GetTradeOffers_params session f t)) \<and>
   testBit f TradeFilterSentOffers = bit f 0 \<and>
   testBit f TradeFilterRecvOffers = bit f 1 \<and>
   testBit f TradeFilterActiveOnly = bit f 3 \<and>
   testBit f TradeFilterHistoricalOnly = bit f 4 \<and>
   testBit f TradeFilterItemDescriptions = bit f 5 \<and>
   calls (snd (GetTradeOffers x session f t w)) =
     calls w @ [Get (apiGetTradeOffers x @ Values_Encode (GetTradeOffers_params session f t))] \<and>
   Values_Encode
     (GetTradeOffers_params session (TradeFilterSentOffers OR TradeFilterActiveOnly) t) =
     ''active_only=1&get_sent_offers=1&key='' @ QueryEscape (apiKey session) @
     ''&time_historical_cutoff='' @ FormatInt t \<and>
   map_of (GetTradeOffers_params session (TradeFilterSentOffers OR TradeFilterActiveOnly) t)
     ''get_received_offers'' = None"
proof -
  have lookups:
    "map_of (GetTradeOffers_params session f t) ''key'' = Some [apiKey session]"
    "map_of (GetTradeOffers_params session f t) ''get_sent_offers'' =
       (if testBit f TradeFilterSentOffers then Some [''1''] else None)"
    "map_of (GetTradeOffers_params session f t) ''get_received_offers'' =
       (if testBit f TradeFilterRecvOffers then Some [''1''] else None)"
    "map_of (GetTradeOffers_params session f t) ''active_only'' =
       (if testBit f TradeFilterActiveOnly then Some [''1''] else None)"
    "map_of (GetTradeOffers_params session f t) ''time_historical_cutoff'' =
       (if testBit f TradeFilterActiveOnly then Some [FormatInt t] else None)"
    "map_of (GetTradeOffers_params session f t) ''get_descriptions'' =
       (if testBit f TradeFilterItemDescriptions then Some [''1''] else None)"
    "map_of (GetTradeOffers_params session f t) ''historical_only'' =
       (if testBit f TradeFilterHistoricalOnly then Some [''1''] else None)"
    for f
    by (simp_all add: GetTradeOffers_params_steps map_of_set_if)
  have once: "distinct (map fst (GetTradeOffers_params session f t))"
    by (simp add: GetTradeOffers_params_steps distinct_set_if)
  have omitted:
    "map_of (GetTradeOffers_params session (TradeFilterSentOffers OR TradeFilterActiveOnly) t)
       ''get_received_offers'' = None"
    unfolding lookups testBit_flags
    by (simp add: TradeFilterSentOffers_def TradeFilterActiveOnly_def bit_or_iff)
  show ?thesis
    by (intro conjI lookups once omitted testBit_flags GetTradeOffers_params_keys
        GetTradeOffers_calls GetTradeOffers_sent_active_query)
qed

section \<open>The trade token\<close>

lemma strip_prefix_Some: "strip_prefix p s = Some r \<Longrightarrow> s = p @ r"
  by (induction p s rule: strip_prefix.induct) (auto split: if_splits)

text \<open>
  A match of \<^verbatim>\<open>offerInfoExp\<close> at the head of a text: the literal, then the longest
  run of class characters, which is not empty.
\<close>

lemma offerInfoExp_here_Some:
  assumes "offerInfoExp_here s = Some m"
  shows "\<exists>g rest. m = [''token='' @ g, g] \<and> s = ''token='' @ g @ rest \<and> g \<noteq> [] \<and>
           list_all is_token_char g \<and> (rest = [] \<or> \<not> is_token_char (hd rest))"
proof -
  from assms obtain r where r: "strip_prefix ''token='' s = Some r"
    by (auto simp add: offerInfoExp_here_def split: option.splits)
  let ?g = "takeWhile is_token_char r"
  from assms r have g: "?g \<noteq> []" and m: "m = [''token='' @ ?g, ?g]"
    by (auto simp add: offerInfoExp_here_def Let_def split: if_splits)
  have "s = ''token='' @ ?g @ dropWhile is_token_char r"
    using strip_prefix_Some [OF r] by simp
  moreover have "list_all is_token_char ?g"
    by (auto simp add: list_all_iff dest: set_takeWhileD)
  moreover have "dropWhile is_token_char r = [] \<or> \<not> is_token_char (hd (dropWhile is_token_char r))"
    using hd_dropWhile [of is_token_char r] by blast
  ultimately show ?thesis
    using g m by blast
qed

text \<open>
  The result of \<^verbatim>\<open>FindStringSubmatch\<close> is the match at the leftmost position where
  one starts.
\<close>

lemma offerInfoExp_FindStringSubmatch_Some:
  assumes "offerInfoExp_FindStringSubmatch s = Some m"
  shows "\<exists>pre g rest. m = [''token='' @ g, g] \<and> s = pre @ ''token='' @ g @ rest \<and> g \<noteq> [] \<and>
           list_all is_token_char g \<and> (rest = [] \<or> \<not> is_token_char (hd rest)) \<and>
           (\<forall>i<length pre. offerInfoExp_here (drop i s) = None)"
  using assms
proof (induction s)
  case Nil
  then show ?case by simp
next
  case (Cons c s)
  show ?case
  proof (cases "offerInfoExp_here (c # s)")
    case (Some m')
    with Cons.prems have "m' = m" by simp
    with Some offerInfoExp_here_Some [of "c # s" m]
    obtain g rest where "m = [''token='' @ g, g]" "c # s = [] @ ''token='' @ g @ rest"
      "g \<noteq> []" "list_all is_token_char g" "rest = [] \<or> \<not> is_token_char (hd rest)"
      by auto
    then show ?thesis
      by (metis length_0_conv not_less_zero list.size(3))
  next
    case None
    with Cons.prems have "offerInfoExp_FindStringSubmatch s = Some m" by simp
    from Cons.IH [OF this] obtain pre g rest where
      h: "m = [''token='' @ g, g]" "s = pre @ ''token='' @ g @ rest" "g \<noteq> []"
      "list_all is_token_char g" "rest = [] \<or> \<not> is_token_char (hd rest)"
      "\<forall>i<length pre. offerInfoExp_here (drop i s) = None"
      by blast
    have "\<forall>i<length (c # pre). offerInfoExp_here (drop i (c # s)) = None"
    proof (intro allI impI)
      fix i assume "i < length (c # pre)"
      then show "offerInfoExp_here (drop i (c # s)) = None"
        using None h(6) by (cases i) auto
    qed
    moreover from h(2) have "c # s = (c # pre) @ ''token='' @ g @ rest" by simp
    ultimately show ?thesis
      using h(1,3,4,5) by blast
  qed
qed

text \<open>The pattern matches nowhere exactly when \<^verbatim>\<open>FindStringSubmatch\<close> returns nil.\<close>

lemma offerInfoExp_count_0_iff:
  "offerInfoExp_count 0 s = 0 \<longleftrightarrow> offerInfoExp_FindStringSubmatch s = None"
  by (induction s) (auto split: option.splits)

lemma GetMyTradeToken_fetched:
  assumes "transport w (calls w) (Get ''https://steamcommunity.com/my/tradeoffers/privacy'') =
             (Some r, None)"
    and "StatusCode r = http_StatusOK" and "Body r = (body, None)"
  shows "fst (GetMyTradeToken w) =
           (case offerInfoExp_FindStringSubmatch body of
              None \<Rightarrow> ([], Some ErrCannotFindOfferInfo)
            | Some m \<Rightarrow> if length m \<noteq> 2 then ([], Some ErrCannotFindOfferInfo)
                        else (m ! 1, None))"
  using assms
  by (simp add: GetMyTradeToken_def client_Get_def round_trip_def io_ReadAll_def
      split: option.splits)

text \<open>
  Claim C8 as stated fails: in this page the pattern matches twice, and
  \<^verbatim>\<open>GetMyTradeToken\<close> returns the token of the first match with no error.
\<close>

theorem GetMyTradeToken_two_matches:
  "offerInfoExp_count 0 ''?partner=1&token=a ?partner=2&token=b'' = 2 \<and>
   fst (GetMyTradeToken (sample_world ''?partner=1&token=a ?partner=2&token=b'')) =
     (''a'', None)"
  by code_simp

text \<open>
  Claim C8, amended. For every trade-privacy page fetched with status 200 and read to
  its end: when the pattern matches nowhere in the body, \<^verbatim>\<open>GetMyTradeToken\<close> fails
  with the extraction error; when it matches at least once (once or more often), the
  call returns the token captured by the leftmost match (the result of
  \<^verbatim>\<open>FindStringSubmatch\<close>) and no error.
\<close>

theorem GetMyTradeToken_first_match:
  assumes "transport w (calls w) (Get ''https://steamcommunity.com/my/tradeoffers/privacy'') =
             (Some r, None)"
    and "StatusCode r = http_StatusOK" and "Body r = (body, None)"
  shows "(offerInfoExp_count 0 body = 0
          \<longrightarrow> fst (GetMyTradeToken w) = ([], Some ErrCannotFindOfferInfo)) \<and>
         (0 < offerInfoExp_count 0 body
          \<longrightarrow> (\<exists>g. offerInfoExp_FindStringSubmatch body = Some [''token='' @ g, g] \<and>
                   fst (GetMyTradeToken w) = (g, None)))"
proof (intro conjI impI)
  assume "offerInfoExp_count 0 body = 0"
  then show "fst (GetMyTradeToken w) = ([], Some ErrCannotFindOfferInfo)"
    by (simp add: GetMyTradeToken_fetched [OF assms] offerInfoExp_count_0_iff)
next
  assume "0 < offerInfoExp_count 0 body"
  then obtain m where m: "offerInfoExp_FindStringSubmatch body = Some m"
    using offerInfoExp_count_0_iff [of body] by (cases "offerInfoExp_FindStringSubmatch body") auto
  from offerInfoExp_FindStringSubmatch_Some [OF m] obtain g where "m = [''token='' @ g, g]"
    by blast
  with m show "\<exists>g. offerInfoExp_FindStringSubmatch body = Some [''token='' @ g, g] \<and>
                   fst (GetMyTradeToken w) = (g, None)"
    by (simp add: GetMyTradeToken_fetched [OF assms])
qed

text \<open>A page with one match, and a page with none.\<close>

theorem GetMyTradeToken_first_match_witness:
  "offerInfoExp_count 0 ''new/?partner=1&token=aB-9_x&y'' = 1 \<and>
   fst (GetMyTradeToken (sample_world ''new/?partner=1&token=aB-9_x&y'')) = (''aB-9_x'', None) \<and>
   offerInfoExp_count 0 ''<html>token=</html>'' = 0 \<and>
   fst (GetMyTradeToken (sample_world ''<html>token=</html>'')) =
     ([], Some ErrCannotFindOfferInfo)"
proof -
  have t: "transport (sample_world b) (calls (sample_world b))
             (Get ''https://steamcommunity.com/my/tradeoffers/privacy'') =
           (Some (sample_page b), None)" for b
    by (simp add: sample_world_def)
  have s: "StatusCode (sample_page b) = http_StatusOK" "Body (sample_page b) = (b, None)" for b
    by (simp_all add: sample_page_def http_StatusOK_def)
  have c1: "offerInfoExp_count 0 ''new/?partner=1&token=aB-9_x&y'' = 1"
    by code_simp
  have f1: "offerInfoExp_FindStringSubmatch ''new/?partner=1&token=aB-9_x&y'' =
              Some [''token=aB-9_x'', ''aB-9_x'']"
    by code_simp
  have c0: "offerInfoExp_count 0 ''<html>token=</html>'' = 0"
    by code_simp
  from GetMyTradeToken_first_match [OF t s, of "''new/?partner=1&token=aB-9_x&y''"] c1 f1
  have a: "fst (GetMyTradeToken (sample_world ''new/?partner=1&token=aB-9_x&y'')) =
             (''aB-9_x'', None)"
    by auto
  from GetMyTradeToken_first_match [OF t s, of "''<html>token=</html>''"] c0
  have b: "fst (GetMyTradeToken (sample_world ''<html>token=</html>'')) =
             ([], Some ErrCannotFindOfferInfo)"
    by simp
  from a b c0 c1 show ?thesis by simp
qed

section \<open>The trade receipt\<close>

text \<open>What \<open>receipt_tail\<close> returns: the characters taken, none a newline, and the brace.\<close>

lemma receipt_tail_Some:
  "receipt_tail acc r = Some g \<Longrightarrow>
     \<exists>mid rest. g = acc @ mid @ ''}'' \<and> r = mid @ ''};'' @ rest \<and> CHR 0x0A \<notin> set mid \<and>
       acc @ mid \<noteq> []"
proof (induction r arbitrary: acc)
  case Nil
  then show ?case by simp
next
  case (Cons c r)
  show ?case
  proof (cases "acc \<noteq> [] \<and> c = CHR ''}'' \<and> (case r of [] \<Rightarrow> False | d # _ \<Rightarrow> d = CHR '';'')")
    case True
    then obtain r' where "r = CHR '';'' # r'"
      by (auto split: list.splits)
    with True Cons.prems have "g = acc @ [] @ ''}''" "c # r = [] @ ''};'' @ r'" "acc @ [] \<noteq> []"
      by auto
    then show ?thesis
      by (metis empty_iff list.set(1))
  next
    case False
    with Cons.prems have nl: "c \<noteq> CHR 0x0A" and "receipt_tail (acc @ [c]) r = Some g"
      by (auto split: if_splits)
    from Cons.IH [OF this(2)] obtain mid rest where
      "g = (acc @ [c]) @ mid @ ''}''" "r = mid @ ''};'' @ rest" "CHR 0x0A \<notin> set mid"
      by blast
    with nl have "g = acc @ (c # mid) @ ''}''" "c # r = (c # mid) @ ''};'' @ rest"
      "CHR 0x0A \<notin> set (c # mid)" "acc @ (c # mid) \<noteq> []"
      by auto
    then show ?thesis by blast
  qed
qed

text \<open>
  A match of \<^verbatim>\<open>receiptExp\<close> at the head of a text: the literal, one space character,
  the group (at least one character and the closing brace, no newline before the
  brace) and the semicolon.
\<close>

lemma receiptExp_here_Some:
  assumes "receiptExp_here s = Some (whole, g)"
  shows "\<exists>c mid rest. whole = ''oItem ='' @ [c] @ g @ '';'' \<and> is_space c \<and> s = whole @ rest \<and>
           g = mid @ ''}'' \<and> mid \<noteq> [] \<and> CHR 0x0A \<notin> set mid"
proof -
  from assms obtain r where r: "strip_prefix ''oItem ='' s = Some r"
    by (auto simp add: receiptExp_here_def split: option.splits)
  with assms obtain c r' where c: "r = c # r'" "is_space c" and t: "receipt_tail [] r' = Some g"
    and w: "whole = ''oItem ='' @ [c] @ g @ '';''"
    by (auto simp add: receiptExp_here_def split: list.splits if_splits option.splits)
  from receipt_tail_Some [OF t] obtain mid rest where
    m: "g = mid @ ''}''" "r' = mid @ ''};'' @ rest" "CHR 0x0A \<notin> set mid" "mid \<noteq> []"
    by auto
  from strip_prefix_Some [OF r] c m w have "s = whole @ rest"
    by simp
  with c m w show ?thesis by blast
qed

lemma occur_in_order_Cons: "occur_in_order ms s \<Longrightarrow> occur_in_order ms (c # s)"
proof (cases ms)
  case Nil
  then show ?thesis by simp
next
  case (Cons m ms')
  assume "occur_in_order ms s"
  with Cons obtain pre rest where "s = pre @ m @ rest" "occur_in_order ms' rest"
    by auto
  then have "c # s = (c # pre) @ m @ rest \<and> occur_in_order ms' rest"
    by simp
  with Cons show ?thesis
    by (metis occur_in_order.simps(2))
qed

text \<open>The matches found lie in the text one after the other, in the order of the list.\<close>

lemma receiptExp_scan_in_order:
  "occur_in_order (map fst (receiptExp_scan k s)) (drop k s)"
proof (induction k s rule: receiptExp_scan.induct)
  case (1 skip)
  then show ?case by simp
next
  case (2 skip c s)
  then show ?case by simp
next
  case (3 c s)
  show ?case
  proof (cases "receiptExp_here (c # s)")
    case None
    with 3 have "occur_in_order (map fst (receiptExp_scan 0 s)) s"
      by simp
    with None show ?thesis
      by (simp add: occur_in_order_Cons)
  next
    case (Some m)
    obtain whole g where m: "m = (whole, g)" by (cases m)
    from receiptExp_here_Some [of "c # s" whole g] Some m obtain rest where
      r: "c # s = whole @ rest" and ne: "whole \<noteq> []"
      by auto
    then have "s = tl whole @ rest"
      by (cases whole) auto
    then have d: "drop (length whole - 1) s = rest"
      by simp
    from 3(2) [OF Some [unfolded m] refl] d
    have "occur_in_order (map fst (receiptExp_scan (length whole - 1) s)) rest"
      by simp
    with r have "\<exists>pre rest'. c # s = pre @ whole @ rest' \<and>
        occur_in_order (map fst (receiptExp_scan (length whole - 1) s)) rest'"
      by (metis append_Nil)
    with Some m show ?thesis by simp
  qed
qed

lemma receiptExp_FindAllSubmatch_in_order:
  "occur_in_order (map fst (receiptExp_FindAllSubmatch body)) body"
  using receiptExp_scan_in_order [of 0 body] by (simp add: receiptExp_FindAllSubmatch_def)

text \<open>The loop over the matches: all fragments decode, or an earliest one does not.\<close>

lemma unmarshal_matches_Inr:
  "map (u \<circ> snd) ms = map Inr items \<Longrightarrow> unmarshal_matches u ms = Inr items"
  by (induction ms arbitrary: items) auto

lemma unmarshal_matches_Inl:
  "k < length ms \<Longrightarrow> u (snd (ms ! k)) = Inl e \<Longrightarrow>
     \<exists>j e'. j \<le> k \<and> u (snd (ms ! j)) = Inl e' \<and> unmarshal_matches u ms = Inl e'"
proof (induction ms arbitrary: k)
  case Nil
  then show ?case by simp
next
  case (Cons m ms)
  show ?case
  proof (cases "u (snd m)")
    case (Inl e0)
    then have "0 \<le> k \<and> u (snd ((m # ms) ! 0)) = Inl e0 \<and> unmarshal_matches u (m # ms) = Inl e0"
      by simp
    then show ?thesis by blast
  next
    case (Inr item)
    with Cons.prems obtain k' where k: "k = Suc k'"
      by (cases k) auto
    with Cons.prems have "k' < length ms" "u (snd (ms ! k')) = Inl e"
      by auto
    from Cons.IH [OF this] obtain j e' where
      "j \<le> k'" "u (snd (ms ! j)) = Inl e'" "unmarshal_matches u ms = Inl e'"
      by blast
    with Inr k have "Suc j \<le> k \<and> u (snd ((m # ms) ! Suc j)) = Inl e' \<and>
        unmarshal_matches u (m # ms) = Inl e'"
      by simp
    then show ?thesis by blast
  qed
qed

lemma GetTradeReceivedItems_fetched:
  assumes "transport w (calls w)
             (Get (''https://steamcommunity.com/trade/'' @ FormatUint receiptID @ ''/receipt'')) =
             (Some r, None)"
    and "StatusCode r = http_StatusOK" and "Body r = (body, None)"
  shows "fst (GetTradeReceivedItems x receiptID w) =
           (if receiptExp_FindAllSubmatch body = [] then (None, Some ErrReceiptMatch)
            else case unmarshal_matches (json_Unmarshal_InventoryItem x)
                        (receiptExp_FindAllSubmatch body) of
                   Inl e \<Rightarrow> (None, Some e)
                 | Inr items \<Rightarrow> (Some items, None))"
  using assms
  by (simp add: GetTradeReceivedItems_def client_Get_def round_trip_def io_ReadAll_def Let_def
      split: sum.splits)

text \<open>
  Claim C5. For every receipt page fetched with status 200 and read to its end:
  when the item pattern matches nowhere in the body, \<^verbatim>\<open>GetTradeReceivedItems\<close> fails
  with the receipt-parse error; when it matches N times and every fragment decodes, the
  call returns the N decoded items, the k-th item decoded from the k-th match; when
  some fragment does not decode, the call returns no items and the error of the
  earliest such fragment. The matches lie in the body one after the other in the order
  of the list.
\<close>

theorem GetTradeReceivedItems_matches:
  assumes "transport w (calls w)
             (Get (''https://steamcommunity.com/trade/'' @ FormatUint receiptID @ ''/receipt'')) =
             (Some r, None)"
    and "StatusCode r = http_StatusOK" and "Body r = (body, None)"
  shows "(receiptExp_FindAllSubmatch body = []
          \<longrightarrow> fst (GetTradeReceivedItems x receiptID w) = (None, Some ErrReceiptMatch)) \<and>
         (receiptExp_FindAllSubmatch body \<noteq> [] \<and>
          map (json_Unmarshal_InventoryItem x \<circ> snd) (receiptExp_FindAllSubmatch body) =
            map Inr items
          \<longrightarrow> fst (GetTradeReceivedItems x receiptID w) = (Some items, None) \<and>
              length items = length (receiptExp_FindAllSubmatch body)) \<and>
         (\<forall>k e. k < length (receiptExp_FindAllSubmatch body) \<and>
                json_Unmarshal_InventoryItem x (snd (receiptExp_FindAllSubmatch body ! k)) = Inl e
          \<longrightarrow> (\<exists>j e'. j \<le> k \<and>
                 json_Unmarshal_InventoryItem x (snd (receiptExp_FindAllSubmatch body ! j)) =
                   Inl e' \<and>
                 fst (GetTradeReceivedItems x receiptID w) = (None, Some e'))) \<and>
         occur_in_order (map fst (receiptExp_FindAllSubmatch body)) body"
proof (intro conjI impI allI)
  assume "receiptExp_FindAllSubmatch body = []"
  then show "fst (GetTradeReceivedItems x receiptID w) = (None, Some ErrReceiptMatch)"
    by (simp add: GetTradeReceivedItems_fetched [OF assms])
next
  assume a: "receiptExp_FindAllSubmatch body \<noteq> [] \<and>
     map (json_Unmarshal_InventoryItem x \<circ> snd) (receiptExp_FindAllSubmatch body) = map Inr items"
  then show "fst (GetTradeReceivedItems x receiptID w) = (Some items, None)"
    by (simp add: GetTradeReceivedItems_fetched [OF assms] unmarshal_matches_Inr)
  from a have "length (map (json_Unmarshal_InventoryItem x \<circ> snd)
                  (receiptExp_FindAllSubmatch body)) = length (map Inr items :: (error + 'a) list)"
    by simp
  then show "length items = length (receiptExp_FindAllSubmatch body)"
    by simp
next
  fix k e
  assume a: "k < length (receiptExp_FindAllSubmatch body) \<and>
     json_Unmarshal_InventoryItem x (snd (receiptExp_FindAllSubmatch body ! k)) = Inl e"
  then have ne: "receiptExp_FindAllSubmatch body \<noteq> []"
    by auto
  from a unmarshal_matches_Inl [of k "receiptExp_FindAllSubmatch body"
      "json_Unmarshal_InventoryItem x" e]
  obtain j e' where "j \<le> k"
    "json_Unmarshal_InventoryItem x (snd (receiptExp_FindAllSubmatch body ! j)) = Inl e'"
    "unmarshal_matches (json_Unmarshal_InventoryItem x) (receiptExp_FindAllSubmatch body) = Inl e'"
    by blast
  with ne show "\<exists>j e'. j \<le> k \<and>
      json_Unmarshal_InventoryItem x (snd (receiptExp_FindAllSubmatch body ! j)) = Inl e' \<and>
      fst (GetTradeReceivedItems x receiptID w) = (None, Some e')"
    by (auto simp add: GetTradeReceivedItems_fetched [OF assms])
next
  show "occur_in_order (map fst (receiptExp_FindAllSubmatch body)) body"
    by (rule receiptExp_FindAllSubmatch_in_order)
qed

text \<open>
  A page without a fragment, a page with two fragments that decode, and a page whose
  second fragment of three does not decode.
\<close>

theorem GetTradeReceivedItems_matches_witness:
  "fst (GetTradeReceivedItems sample_extern 9 (sample_world ''<html></html>'')) =
     (None, Some ErrReceiptMatch) \<and>
   fst (GetTradeReceivedItems sample_extern 9
          (sample_world ''var oItem = {1}; x oItem = {{2}};'')) =
     (Some [''{1}'', ''{{2}}''], None) \<and>
   fst (GetTradeReceivedItems sample_extern 9
          (sample_world ''oItem = {1}; oItem = {!}; oItem = {3};'')) =
     (None, Some (External ''json: cannot unmarshal''))"
proof -
  have t: "transport (sample_world b) (calls (sample_world b))
             (Get (''https://steamcommunity.com/trade/'' @ FormatUint 9 @ ''/receipt'')) =
           (Some (sample_page b), None)" for b
    by (simp add: sample_world_def)
  have s: "StatusCode (sample_page b) = http_StatusOK" "Body (sample_page b) = (b, None)" for b
    by (simp_all add: sample_page_def http_StatusOK_def)
  have m0: "receiptExp_FindAllSubmatch ''<html></html>'' = []"
    by code_simp
  have m2: "receiptExp_FindAllSubmatch ''var oItem = {1}; x oItem = {{2}};'' =
              [(''oItem = {1};'', ''{1}''), (''oItem = {{2}};'', ''{{2}}'')]"
    by code_simp
  have d2: "map (json_Unmarshal_InventoryItem sample_extern \<circ> snd)
              [(''oItem = {1};'', ''{1}''), (''oItem = {{2}};'', ''{{2}}'')] =
            map Inr [''{1}'', ''{{2}}'']"
    by code_simp
  have m3: "receiptExp_FindAllSubmatch ''oItem = {1}; oItem = {!}; oItem = {3};'' =
              [(''oItem = {1};'', ''{1}''), (''oItem = {!};'', ''{!}''),
               (''oItem = {3};'', ''{3}'')]"
    by code_simp
  have d3: "json_Unmarshal_InventoryItem sample_extern ''{!}'' =
              Inl (External ''json: cannot unmarshal'')"
    by code_simp
  have only: "json_Unmarshal_InventoryItem sample_extern f = Inl e' \<Longrightarrow>
      e' = External ''json: cannot unmarshal''" for f e'
    by (simp add: sample_extern_def split: if_splits)
  from GetTradeReceivedItems_matches [OF t s, of "''<html></html>''" sample_extern] m0
  have a: "fst (GetTradeReceivedItems sample_extern 9 (sample_world ''<html></html>'')) =
             (None, Some ErrReceiptMatch)"
    by simp
  from GetTradeReceivedItems_matches [OF t s, of "''var oItem = {1}; x oItem = {{2}};''"
      sample_extern "[''{1}'', ''{{2}}'']"] m2 d2
  have b: "fst (GetTradeReceivedItems sample_extern 9
             (sample_world ''var oItem = {1}; x oItem = {{2}};'')) =
           (Some [''{1}'', ''{{2}}''], None)"
    by simp
  from GetTradeReceivedItems_matches [OF t s, of "''oItem = {1}; oItem = {!}; oItem = {3};''"
      sample_extern]
  have "\<forall>k e. k < length (receiptExp_FindAllSubmatch ''oItem = {1}; oItem = {!}; oItem = {3};'') \<and>
          json_Unmarshal_InventoryItem sample_extern
            (snd (receiptExp_FindAllSubmatch ''oItem = {1}; oItem = {!}; oItem = {3};'' ! k)) =
            Inl e
        \<longrightarrow> (\<exists>j e'. j \<le> k \<and>
               json_Unmarshal_InventoryItem sample_extern
                 (snd (receiptExp_FindAllSubmatch ''oItem = {1}; oItem = {!}; oItem = {3};'' ! j)) =
                 Inl e' \<and>
               fst (GetTradeReceivedItems sample_extern 9
                      (sample_world ''oItem = {1}; oItem = {!}; oItem = {3};'')) =
                 (None, Some e'))"
    by blast
  from this [rule_format, of 1 "External ''json: cannot unmarshal''"] m3 d3
  obtain j e' where
    "json_Unmarshal_InventoryItem sample_extern
       (snd (receiptExp_FindAllSubmatch ''oItem = {1}; oItem = {!}; oItem = {3};'' ! j)) = Inl e'"
    "fst (GetTradeReceivedItems sample_extern 9
            (sample_world ''oItem = {1}; oItem = {!}; oItem = {3};'')) = (None, Some e')"
    by auto
  with only have c: "fst (GetTradeReceivedItems sample_extern 9
             (sample_world ''oItem = {1}; oItem = {!}; oItem = {3};'')) =
           (None, Some (External ''json: cannot unmarshal''))"
    by blast
  from a b c show ?thesis by simp
qed

end
